theory Spec2Isabelle
  imports Complex_Main "HOL-Library.AList" "HOL-Library.Char_ord" "HOL-Library.List_Lexorder"
    "HOL-Library.Multiset"
begin

section \<open>Python values, exceptions and strings\<close>

text \<open>
  The development embeds \<^verbatim>\<open>services/caption_video_old_2.py\<close>. A Python \<^verbatim>\<open>str\<close> is a
  \<^typ>\<open>string\<close> whose characters are the code points below 256. An exception is a value
  of \<open>exn\<close>; a function that may raise returns \<open>exn + 'a\<close> with \<open>Inl\<close> for the raise.
\<close>

datatype exn =
    ValueError | JSONDecodeError | KeyError | TypeError | IndexError | ZeroDivisionError
  | FileNotFoundError | PermissionError | RequestException | FFmpegError | OtherException string

text \<open>Option values arrive as decoded JSON; a float is carried as the rational it denotes.\<close>

datatype json =
    JNull | JBool bool | JInt int | JFloat rat | JStr string
  | JList "json list" | JDict "(string \<times> json) list"

text \<open>Python truthiness, as used by \<^verbatim>\<open>if not one_word_highlight\<close> and \<^verbatim>\<open>if one_word_highlight\<close>.\<close>

fun truthy :: "json \<Rightarrow> bool" where
  "truthy JNull = False"
| "truthy (JBool b) = b"
| "truthy (JInt i) = (i \<noteq> 0)"
| "truthy (JFloat q) = (q \<noteq> 0)"
| "truthy (JStr s) = (s \<noteq> [])"
| "truthy (JList xs) = (xs \<noteq> [])"
| "truthy (JDict kvs) = (kvs \<noteq> [])"

text \<open>\<^verbatim>\<open>str.isspace\<close> on one code point below 256; \<^verbatim>\<open>\S\<close> of \<^verbatim>\<open>re\<close> is its complement.\<close>

definition is_space :: "char \<Rightarrow> bool" where
  "is_space c = (let n = (of_char c :: nat) in
     (9 \<le> n \<and> n \<le> 13) \<or> (28 \<le> n \<and> n \<le> 32) \<or> n = 133 \<or> n = 160)"

definition is_digit :: "char \<Rightarrow> bool" where
  "is_digit c = (48 \<le> (of_char c :: nat) \<and> (of_char c :: nat) \<le> 57)"

definition digit_val :: "char \<Rightarrow> int" where
  "digit_val c = of_char c - 48"

definition strip :: "string \<Rightarrow> string" where
  "strip s = rev (dropWhile is_space (rev (dropWhile is_space s)))"

definition startswith :: "string \<Rightarrow> string \<Rightarrow> bool" where
  "startswith s p = (take (length p) s = p)"

text \<open>\<^verbatim>\<open>sub in s\<close> for strings.\<close>

fun contains :: "string \<Rightarrow> string \<Rightarrow> bool" where
  "contains sub [] = (sub = [])"
| "contains sub (c # cs) = (startswith (c # cs) sub \<or> contains sub cs)"

text \<open>
  \<^verbatim>\<open>s.split(sep)\<close> for a non-empty separator: the occurrences are found from the left
  and do not overlap. (Python raises on an empty separator; the source never passes one.)
\<close>

fun split_on :: "string \<Rightarrow> string \<Rightarrow> string list" where
  "split_on sep [] = [[]]"
| "split_on sep (c # cs) =
     (if sep \<noteq> [] \<and> startswith (c # cs) sep
      then [] # split_on sep (drop (length sep - 1) cs)
      else (case split_on sep cs of
              [] \<Rightarrow> [[c]]
            | p # ps \<Rightarrow> (c # p) # ps))"

fun join :: "string \<Rightarrow> string list \<Rightarrow> string" where
  "join sep [] = []"
| "join sep [x] = x"
| "join sep (x # y # ys) = x @ sep @ join sep (y # ys)"

text \<open>\<^verbatim>\<open>re.findall(r'\S+', text)\<close>: the maximal runs of non-space characters.\<close>

fun findall_nonspace_acc :: "string \<Rightarrow> string \<Rightarrow> string list" where
  "findall_nonspace_acc cur [] = (if cur = [] then [] else [rev cur])"
| "findall_nonspace_acc cur (c # cs) =
     (if is_space c
      then (if cur = [] then findall_nonspace_acc [] cs
            else rev cur # findall_nonspace_acc [] cs)
      else findall_nonspace_acc (c # cur) cs)"

definition findall_nonspace :: "string \<Rightarrow> string list" where
  "findall_nonspace text = findall_nonspace_acc [] text"

text \<open>Decimal rendering of integers, as \<^verbatim>\<open>str(int)\<close> and \<^verbatim>\<open>%d\<close> give it.\<close>

definition digit_char :: "int \<Rightarrow> char" where
  "digit_char n = char_of (48 + n mod 10)"

function str_dec :: "int \<Rightarrow> string" where
  "str_dec n = (if n < 10 then [digit_char n] else str_dec (n div 10) @ [digit_char n])"
  by pat_completeness auto
termination
  by (relation "measure nat") auto

definition str_int :: "int \<Rightarrow> string" where
  "str_int i = (if i < 0 then CHR ''-'' # str_dec (- i) else str_dec i)"

definition pad2 :: "int \<Rightarrow> string" where
  "pad2 n = [digit_char (n div 10), digit_char n]"

section \<open>Timestamps: \<^verbatim>\<open>datetime.strptime\<close> and \<^verbatim>\<open>strftime\<close> with \<^verbatim>\<open>'%H:%M:%S,%f'\<close>\<close>

text \<open>
  \<^verbatim>\<open>strptime\<close> compiles the format to the regular expression
  \<^verbatim>\<open>(?P<H>2[0-3]|[0-1]\d|\d):(?P<M>[0-5]\d|\d):(?P<S>6[0-1]|[0-5]\d|\d),(?P<f>[0-9]{1,6})\<close>,
  matches it at the start of the data by backtracking, and raises \<^verbatim>\<open>ValueError\<close> when
  there is no match or when data remains after the match. Each group below lists the
  ways it can match a prefix, in the order the regular expression tries them, with the
  rest of the data. A \<^verbatim>\<open>datetime\<close> on the default date 1900-01-01 is the number of
  microseconds since that day's midnight.
\<close>

definition alt2 :: "(char \<Rightarrow> bool) \<Rightarrow> (char \<Rightarrow> bool) \<Rightarrow> string \<Rightarrow> (int \<times> string) list" where
  "alt2 p1 p2 s = (case s of
       c1 # c2 # r \<Rightarrow> (if p1 c1 \<and> p2 c2 then [(10 * digit_val c1 + digit_val c2, r)] else [])
     | _ \<Rightarrow> [])"

definition alt1 :: "string \<Rightarrow> (int \<times> string) list" where
  "alt1 s = (case s of c # r \<Rightarrow> (if is_digit c then [(digit_val c, r)] else []) | [] \<Rightarrow> [])"

definition digit_between :: "int \<Rightarrow> int \<Rightarrow> char \<Rightarrow> bool" where
  "digit_between lo hi c = (is_digit c \<and> lo \<le> digit_val c \<and> digit_val c \<le> hi)"

definition re_H :: "string \<Rightarrow> (int \<times> string) list" where
  "re_H s = alt2 (digit_between 2 2) (digit_between 0 3) s
          @ alt2 (digit_between 0 1) is_digit s @ alt1 s"

definition re_M :: "string \<Rightarrow> (int \<times> string) list" where
  "re_M s = alt2 (digit_between 0 5) is_digit s @ alt1 s"

definition re_S :: "string \<Rightarrow> (int \<times> string) list" where
  "re_S s = alt2 (digit_between 6 6) (digit_between 0 1) s
          @ alt2 (digit_between 0 5) is_digit s @ alt1 s"

definition re_f :: "string \<Rightarrow> (string \<times> string) list" where
  "re_f s = (let n = length (takeWhile is_digit (take 6 s))
             in map (\<lambda>k. (take k s, drop k s)) (rev [1 ..< Suc n]))"

definition lit :: "char \<Rightarrow> string \<Rightarrow> string list" where
  "lit c s = (case s of x # r \<Rightarrow> (if x = c then [r] else []) | [] \<Rightarrow> [])"

definition strptime_matches :: "string \<Rightarrow> (int \<times> int \<times> int \<times> string \<times> string) list" where
  "strptime_matches s =
     [(h, m, sec, f, r7).
        (h, r1) \<leftarrow> re_H s, r2 \<leftarrow> lit (CHR '':'') r1,
        (m, r3) \<leftarrow> re_M r2, r4 \<leftarrow> lit (CHR '':'') r3,
        (sec, r5) \<leftarrow> re_S r4, r6 \<leftarrow> lit (CHR '','') r5,
        (f, r7) \<leftarrow> re_f r6]"

text \<open>\<^verbatim>\<open>%f\<close>: the digits are padded with zeros on the right to six.\<close>

definition fraction :: "string \<Rightarrow> int" where
  "fraction f = foldl (\<lambda>a c. 10 * a + digit_val c) 0 f * 10 ^ (6 - length f)"

definition strptime :: "string \<Rightarrow> exn + int" where
  "strptime s = (case strptime_matches s of
       [] \<Rightarrow> Inl ValueError
     | (h, m, sec, f, rest) # _ \<Rightarrow>
         if rest \<noteq> [] then Inl ValueError
         else if sec > 59 then Inl ValueError
         else Inr (((h * 60 + m) * 60 + sec) * 1000000 + fraction f))"

text \<open>\<^verbatim>\<open>dt.strftime('%H:%M:%S,%f')[:-3]\<close>: the time of day with milliseconds.\<close>

definition pad6 :: "int \<Rightarrow> string" where
  "pad6 n = map (\<lambda>k. digit_char (n div 10 ^ k)) [5, 4, 3, 2, 1, 0]"

definition strftime_ms :: "int \<Rightarrow> string" where
  "strftime_ms t =
     (let us = t mod 86400000000;
          full = pad2 (us div 3600000000) @ '':'' @ pad2 (us div 60000000 mod 60) @ '':''
               @ pad2 (us div 1000000 mod 60) @ '','' @ pad6 (us mod 1000000)
      in take (length full - 3) full)"

section \<open>Floating point\<close>

text \<open>
  The source computes durations in binary floating point. A finite float is the rational
  it denotes; the rounding operations are not fixed here but taken as parameters:
  \<open>total_seconds\<close> is \<^verbatim>\<open>timedelta.total_seconds()\<close> of a difference in microseconds,
  \<open>fdiv\<close> and \<open>fmul\<close> are float division and multiplication, \<open>timedelta_seconds\<close> is
  \<^verbatim>\<open>timedelta(seconds=x)\<close> in microseconds. \<^verbatim>\<open>int(x)\<close> truncates towards zero exactly.
\<close>

record float_ops =
  total_seconds :: "int \<Rightarrow> rat"
  fdiv :: "rat \<Rightarrow> rat \<Rightarrow> rat"
  fmul :: "rat \<Rightarrow> rat \<Rightarrow> rat"
  timedelta_seconds :: "rat \<Rightarrow> int"

definition int_trunc :: "rat \<Rightarrow> int" where
  "int_trunc q = (if q < 0 then \<lceil>q\<rceil> else \<lfloor>q\<rfloor>)"

section \<open>Per-word timing expansion: \<^verbatim>\<open>process_subtitle_content\<close>\<close>

definition newline :: string where
  "newline = [CHR 0x0A]"

definition backslash :: string where
  "backslash = [CHR 0x5C]"

text \<open>
  Lines 127 to 131: the three lines appended for the \<open>i\<close>-th word of a cue.
\<close>

definition word_lines :: "float_ops \<Rightarrow> int \<Rightarrow> rat \<Rightarrow> nat \<Rightarrow> string \<Rightarrow> string list" where
  "word_lines fo start_time word_duration i word =
     (let word_start = start_time + timedelta_seconds fo (fmul fo (of_nat i) word_duration);
          word_end = word_start + timedelta_seconds fo word_duration
      in [strftime_ms word_start @ '' --> '' @ strftime_ms word_end,
          ''{'' @ backslash @ ''highlight}{'' @ backslash @ ''k''
            @ str_int (int_trunc (fmul fo word_duration 100)) @ ''}'' @ word,
          []])"

text \<open>
  Lines 122 to 131, once both timestamps are parsed: the text is cut into words, the
  duration is divided by their number (Python raises \<^verbatim>\<open>ZeroDivisionError\<close> on a float
  division by zero) and every word gives its three lines.
\<close>

definition emit_words :: "float_ops \<Rightarrow> int \<Rightarrow> int \<Rightarrow> string \<Rightarrow> exn + string list" where
  "emit_words fo start_time end_time text =
     (let words = findall_nonspace text;
          total_duration = total_seconds fo (end_time - start_time)
      in if length words = 0 then Inl ZeroDivisionError
         else let word_duration = fdiv fo total_duration (of_nat (length words))
              in Inr (concat (map (\<lambda>(i, word). word_lines fo start_time word_duration i word)
                                  (enumerate 0 words))))"

text \<open>
  Lines 117 to 121: a line with \<^verbatim>\<open>-->\<close> is unpacked into exactly two parts (anything
  else raises \<^verbatim>\<open>ValueError\<close>); the start time is parsed from the first part, the end
  time from the second part up to its first comma, and the text is what follows that
  comma.
\<close>

definition expand_cue :: "float_ops \<Rightarrow> string \<Rightarrow> exn + string list" where
  "expand_cue fo line =
     (case split_on ''-->'' line of
        [time_part, text_part] \<Rightarrow>
          (case strptime (strip time_part) of
             Inl e \<Rightarrow> Inl e
           | Inr start_time \<Rightarrow>
               (case split_on '','' text_part of
                  [] \<Rightarrow> Inl IndexError
                | end_part # text_parts \<Rightarrow>
                    (case strptime (strip end_part) of
                       Inl e \<Rightarrow> Inl e
                     | Inr end_time \<Rightarrow>
                         emit_words fo start_time end_time (strip (join '','' text_parts)))))
      | _ \<Rightarrow> Inl ValueError)"

definition is_cue_line :: "string \<Rightarrow> bool" where
  "is_cue_line line = (strip line \<noteq> [] \<and> contains ''-->'' line)"

definition process_line :: "float_ops \<Rightarrow> string \<Rightarrow> exn + string list" where
  "process_line fo line = (if is_cue_line line then expand_cue fo line else Inr [line])"

text \<open>The loop of lines 114 to 133; the first exception ends it.\<close>

fun process_lines :: "float_ops \<Rightarrow> string list \<Rightarrow> exn + string list" where
  "process_lines fo [] = Inr []"
| "process_lines fo (line # lines) =
     (case process_line fo line of
        Inl e \<Rightarrow> Inl e
      | Inr out \<Rightarrow>
          (case process_lines fo lines of
             Inl e \<Rightarrow> Inl e
           | Inr rest \<Rightarrow> Inr (out @ rest)))"

definition process_subtitle_content :: "float_ops \<Rightarrow> string \<Rightarrow> json \<Rightarrow> exn + string" where
  "process_subtitle_content fo content one_word_highlight =
     (if \<not> truthy one_word_highlight then Inr content
      else (case process_lines fo (split_on newline content) of
              Inl e \<Rightarrow> Inl e
            | Inr processed_lines \<Rightarrow> Inr (join newline processed_lines)))"

section \<open>Dictionaries, the font catalogue and option validation\<close>

text \<open>
  A Python \<^verbatim>\<open>dict\<close> with string keys is an association list with distinct keys in insertion
  order: storing under a key that is present replaces the value and keeps the position,
  which is \<^const>\<open>AList.update\<close>. \<^verbatim>\<open>d.get(k, default)\<close> is \<open>dict_get\<close>.
\<close>

type_synonym 'v pydict = "(string \<times> 'v) list"

definition dict_get :: "'v pydict \<Rightarrow> string \<Rightarrow> 'v \<Rightarrow> 'v" where
  "dict_get d k dflt = (case map_of d k of None \<Rightarrow> dflt | Some v \<Rightarrow> v)"

definition dict_has :: "'v pydict \<Rightarrow> string \<Rightarrow> bool" where
  "dict_has d k = (map_of d k \<noteq> None)"

text \<open>
  Lines 314 to 316. An item of the options array is the pair of its \<^verbatim>\<open>"option"\<close> and
  \<^verbatim>\<open>"value"\<close> entries.
\<close>

definition convert_array_to_collection :: "(string \<times> json) list \<Rightarrow> json pydict" where
  "convert_array_to_collection options = foldl (\<lambda>d (k, v). AList.update k v d) [] options"

definition endswith :: "string \<Rightarrow> string \<Rightarrow> bool" where
  "endswith s suffix = (length suffix \<le> length s \<and> drop (length s - length suffix) s = suffix)"

text \<open>\<^verbatim>\<open>os.path.join(a, b)\<close> and \<^verbatim>\<open>os.path.splitext(p)[0]\<close> of \<^verbatim>\<open>posixpath\<close>.\<close>

definition path_join :: "string \<Rightarrow> string \<Rightarrow> string" where
  "path_join a b =
     (if startswith b ''/'' then b
      else if a = [] \<or> endswith a ''/'' then a @ b
      else a @ ''/'' @ b)"

definition rfind :: "char \<Rightarrow> string \<Rightarrow> int" where
  "rfind c s = (if c \<in> set s
                then int (length s) - 1 - int (length (takeWhile (\<lambda>x. x \<noteq> c) (rev s)))
                else - 1)"

definition splitext_root :: "string \<Rightarrow> string" where
  "splitext_root p =
     (let sepIndex = rfind (CHR ''/'') p; dotIndex = rfind (CHR ''.'') p
      in if dotIndex > sepIndex
            \<and> list_ex (\<lambda>c. c \<noteq> CHR ''.'')
                 (take (nat (dotIndex - (sepIndex + 1))) (drop (nat (sepIndex + 1)) p))
         then take (nat dotIndex) p
         else p)"

definition STORAGE_PATH :: string where
  "STORAGE_PATH = ''/tmp/''"

definition FONTS_DIR :: string where
  "FONTS_DIR = ''/usr/share/fonts/custom''"

text \<open>
  Lines 26 to 33: the catalogue is built once from the listing of the fonts directory,
  which is a parameter here.
\<close>

definition FONT_PATHS :: "string list \<Rightarrow> string pydict" where
  "FONT_PATHS listing =
     foldl (\<lambda>d font_file.
              if endswith font_file ''.ttf'' \<or> endswith font_file ''.TTF''
              then AList.update (splitext_root font_file) (path_join FONTS_DIR font_file) d
              else d)
           [] listing"

definition ACCEPTABLE_FONTS :: "string list \<Rightarrow> string list" where
  "ACCEPTABLE_FONTS listing = map fst (FONT_PATHS listing)"

text \<open>
  \<^verbatim>\<open>x in xs\<close> for a list of strings compares with \<^verbatim>\<open>==\<close>: only an equal string is in it.
  \<^verbatim>\<open>isinstance(x, int)\<close> holds for integers and, \<^verbatim>\<open>bool\<close> being a subclass of \<^verbatim>\<open>int\<close> in
  Python, for the booleans, which compare as 0 and 1.
\<close>

definition in_str_list :: "json \<Rightarrow> string list \<Rightarrow> bool" where
  "in_str_list v xs = (case v of JStr s \<Rightarrow> s \<in> set xs | _ \<Rightarrow> False)"

fun isinstance_int :: "json \<Rightarrow> bool" where
  "isinstance_int (JInt i) = True"
| "isinstance_int (JBool b) = True"
| "isinstance_int _ = False"

fun int_value :: "json \<Rightarrow> int" where
  "int_value (JInt i) = i"
| "int_value (JBool b) = (if b then 1 else 0)"
| "int_value _ = 0"

text \<open>Lines 137 to 147. \<^verbatim>\<open>None\<close>, the value of \<^verbatim>\<open>options.get\<close> on a missing key, is \<open>JNull\<close>.\<close>

definition validate_options :: "string list \<Rightarrow> json pydict \<Rightarrow> exn + unit" where
  "validate_options listing options =
     (if list_ex (\<lambda>option. \<not> dict_has options option)
           [''font_name'', ''font_size'', ''primary_color'']
      then Inl ValueError
      else if \<not> in_str_list (dict_get options ''font_name'' JNull) (ACCEPTABLE_FONTS listing)
      then Inl ValueError
      else if \<not> isinstance_int (dict_get options ''font_size'' JNull)
              \<or> int_value (dict_get options ''font_size'' JNull) \<le> 0
      then Inl ValueError
      else Inr ())"

section \<open>The job fingerprint\<close>

text \<open>
  \<^verbatim>\<open>json.dumps(obj, sort_keys=True)\<close> writes the items of every dictionary in the order of
  their keys; strings are ordered by code points, lexicographically. It is the encoder
  applied to the value with all its dictionaries sorted.
\<close>

fun sort_keys :: "json \<Rightarrow> json" where
  "sort_keys (JList xs) = JList (map sort_keys xs)"
| "sort_keys (JDict kvs) = JDict (sort_key fst (map (\<lambda>kv. (fst kv, sort_keys (snd kv))) kvs))"
| "sort_keys v = v"

section \<open>The environment of a job\<close>

text \<open>
  What the module takes from outside is a parameter: the listing of the fonts directory,
  the floating-point operations, the \<^verbatim>\<open>json\<close> encoder (\<^verbatim>\<open>json.dumps\<close> without sorting, whose
  output is ASCII) and decoder (\<^verbatim>\<open>json.load\<close> on the text of a file), \<^verbatim>\<open>hashlib.md5\<close>
  with \<^verbatim>\<open>hexdigest\<close>, \<^verbatim>\<open>str\<close> of floats and containers, and the collaborators
  \<^verbatim>\<open>download_file\<close> (the local path and the bytes it stores there), \<^verbatim>\<open>requests.get\<close>,
  \<^verbatim>\<open>ffmpeg.probe\<close> with the frame count read from it (lines 265 and 266), the \<^verbatim>\<open>ffmpeg\<close> run
  (the bytes of the output file; a failed run is taken to leave no output) and
  \<^verbatim>\<open>upload_to_gcs\<close>. The renderer, the probe and the upload read the local files, so they
  depend on them. \<open>writable\<close> says whether \<^verbatim>\<open>open(path, 'w')\<close> succeeds.
\<close>

record response =
  status_error :: bool
  resp_content :: string
  resp_text :: string

record env =
  fonts_listing :: "string list"
  floats :: float_ops
  json_encode :: "json \<Rightarrow> string"
  json_decode :: "string \<Rightarrow> exn + json"
  md5_hexdigest :: "string \<Rightarrow> string"
  py_repr :: "json \<Rightarrow> string"
  download_file :: "string \<Rightarrow> string \<Rightarrow> exn + string \<times> string"
  requests_get :: "string \<Rightarrow> exn + response"
  ffmpeg_probe_frames :: "(string \<rightharpoonup> string) \<Rightarrow> string \<Rightarrow> exn + int"
  ffmpeg_run :: "(string \<rightharpoonup> string) \<Rightarrow> string \<Rightarrow> string \<Rightarrow> string \<Rightarrow> exn + string"
  upload_to_gcs :: "(string \<rightharpoonup> string) \<Rightarrow> string \<Rightarrow> string \<Rightarrow> exn + string"
  GCP_BUCKET_NAME :: string
  writable :: "string \<Rightarrow> bool"

text \<open>
  The state a job works on: the local files (path to content) and the trace of what was
  asked of the collaborators, with the warning of the font fallback.
\<close>

datatype event =
    Download string | Fetch string | Probe string | Render string string string
  | Upload string | FontFallback

record world =
  files :: "string \<rightharpoonup> string"
  calls :: "event list"

type_synonym 'a io = "world \<Rightarrow> (exn + 'a) \<times> world"

definition bindE :: "'a io \<Rightarrow> ('a \<Rightarrow> 'b io) \<Rightarrow> 'b io" where
  "bindE m f = (\<lambda>w. case m w of (Inl e, w') \<Rightarrow> (Inl e, w') | (Inr x, w') \<Rightarrow> f x w')"

definition liftE :: "exn + 'a \<Rightarrow> 'a io" where
  "liftE r = (\<lambda>w. (r, w))"

definition record_call :: "event \<Rightarrow> unit io" where
  "record_call c = (\<lambda>w. (Inr (), w\<lparr>calls := calls w @ [c]\<rparr>))"

definition path_exists :: "string \<Rightarrow> bool io" where
  "path_exists p = (\<lambda>w. (Inr (files w p \<noteq> None), w))"

definition read_file :: "string \<Rightarrow> string io" where
  "read_file p = (\<lambda>w. case files w p of
                        None \<Rightarrow> (Inl FileNotFoundError, w)
                      | Some c \<Rightarrow> (Inr c, w))"

definition write_file :: "env \<Rightarrow> string \<Rightarrow> string \<Rightarrow> unit io" where
  "write_file env p c = (\<lambda>w. if writable env p
                               then (Inr (), w\<lparr>files := (files w)(p \<mapsto> c)\<rparr>)
                               else (Inl PermissionError, w))"

definition os_remove :: "string \<Rightarrow> unit io" where
  "os_remove p = (\<lambda>w. if files w p \<noteq> None
                        then (Inr (), w\<lparr>files := (files w)(p := None)\<rparr>)
                        else (Inl FileNotFoundError, w))"

section \<open>Style lines and filters\<close>

definition quote :: string where
  "quote = [CHR 0x27]"

definition py_str :: "env \<Rightarrow> json \<Rightarrow> string" where
  "py_str env v = (case v of
       JStr s \<Rightarrow> s
     | JInt i \<Rightarrow> str_int i
     | JBool b \<Rightarrow> (if b then ''True'' else ''False'')
     | JNull \<Rightarrow> ''None''
     | _ \<Rightarrow> py_repr env v)"

text \<open>Lines 79 to 106.\<close>

definition generate_style_line :: "env \<Rightarrow> json pydict \<Rightarrow> string" where
  "generate_style_line env options =
     ''Style: '' @ join '','' (map (py_str env)
       [JStr ''Default'',
        dict_get options ''font_name'' (JStr ''Arial''),
        dict_get options ''font_size'' (JInt 24),
        dict_get options ''primary_color'' (JStr ''&H00FFFFFF''),
        dict_get options ''outline_color'' (JStr ''&H00000000''),
        dict_get options ''back_color'' (JStr ''&H00000000''),
        dict_get options ''bold'' (JInt 0),
        dict_get options ''italic'' (JInt 0),
        dict_get options ''underline'' (JInt 0),
        dict_get options ''strikeout'' (JInt 0),
        JInt 100, JInt 100, JInt 0, JInt 0, JInt 1,
        dict_get options ''outline'' (JInt 1),
        dict_get options ''shadow'' (JInt 0),
        dict_get options ''alignment'' (JInt 2),
        dict_get options ''margin_l'' (JInt 10),
        dict_get options ''margin_r'' (JInt 10),
        dict_get options ''margin_v'' (JInt 10),
        dict_get options ''encoding'' (JInt 1),
        dict_get options ''one_word_highlight'' (JBool False)])"

text \<open>Lines 179 to 193: the header put before an \<^verbatim>\<open>ass\<close> subtitle, empty otherwise.\<close>

definition caption_style_of :: "env \<Rightarrow> string \<Rightarrow> json pydict \<Rightarrow> string" where
  "caption_style_of env caption_type options =
     (if caption_type = ''ass''
      then join newline
        [[],
         ''[Script Info]'',
         ''Title: Highlight Current Word'',
         ''ScriptType: v4.00+'',
         ''[V4+ Styles]'',
         ''Format: Name, Fontname, Fontsize, PrimaryColour, OutlineColour, BackColour, ''
           @ ''Bold, Italic, Underline, StrikeOut, ScaleX, ScaleY, Spacing, Angle, ''
           @ ''BorderStyle, Outline, Shadow, Alignment, MarginL, MarginR, MarginV, Encoding'',
         generate_style_line env options,
         ''[Events]'',
         ''Format: Layer, Start, End, Style, Name, MarginL, MarginR, MarginV, Effect, Text'',
         []]
      else [])"

text \<open>
  Lines 227 to 263. In the simple dialect an entry whose value is \<^verbatim>\<open>None\<close> is left out.
\<close>

definition build_subtitle_filter ::
  "env \<Rightarrow> json pydict \<Rightarrow> string \<Rightarrow> string \<Rightarrow> json \<Rightarrow> json \<Rightarrow> string" where
  "build_subtitle_filter env options subtitle_extension srt_path font_name one_word_highlight =
     (if subtitle_extension = ''.ass''
      then (if truthy one_word_highlight
            then ''ass='' @ quote @ srt_path @ quote @ '',subtitles='' @ quote @ srt_path @ quote
                   @ '':force_style='' @ quote @ ''Highlight=1'' @ quote
            else ''subtitles='' @ quote @ srt_path @ quote)
      else
        (let style_options =
           [(''FontName'', font_name),
            (''FontSize'', dict_get options ''font_size'' (JInt 24)),
            (''PrimaryColour'', dict_get options ''primary_color'' (JStr ''&H00FFFFFF'')),
            (''SecondaryColour'', dict_get options ''secondary_color'' (JStr ''&H00000000'')),
            (''OutlineColour'', dict_get options ''outline_color'' (JStr ''&H00000000'')),
            (''BackColour'', dict_get options ''back_color'' (JStr ''&H00000000'')),
            (''Bold'', dict_get options ''bold'' (JInt 0)),
            (''Italic'', dict_get options ''italic'' (JInt 0)),
            (''Underline'', dict_get options ''underline'' (JInt 0)),
            (''StrikeOut'', dict_get options ''strikeout'' (JInt 0)),
            (''Alignment'', dict_get options ''alignment'' (JInt 2)),
            (''MarginV'', dict_get options ''margin_v'' (JInt 10)),
            (''MarginL'', dict_get options ''margin_l'' (JInt 10)),
            (''MarginR'', dict_get options ''margin_r'' (JInt 10)),
            (''Outline'', dict_get options ''outline'' (JInt 1)),
            (''Shadow'', dict_get options ''shadow'' (JInt 0)),
            (''Blur'', dict_get options ''blur'' (JInt 0)),
            (''BorderStyle'', dict_get options ''border_style'' (JInt 1)),
            (''Encoding'', dict_get options ''encoding'' (JInt 1)),
            (''Spacing'', dict_get options ''spacing'' (JInt 0)),
            (''Angle'', dict_get options ''angle'' (JInt 0)),
            (''UpperCase'', dict_get options ''uppercase'' (JInt 0)),
            (''Highlight'', if truthy one_word_highlight then JInt 1 else JNull)]
         in ''subtitles='' @ srt_path @ '':force_style='' @ quote
            @ join '','' (map (\<lambda>(k, v). k @ ''='' @ py_str env v)
                            (filter (\<lambda>(k, v). v \<noteq> JNull) style_options))
            @ quote))"

section \<open>The orchestration: \<^verbatim>\<open>process_captioning\<close>\<close>

text \<open>
  Lines 149 to 156. The serialisation is ASCII, which \<^verbatim>\<open>encode('utf-8')\<close> leaves as it
  is.
\<close>

definition get_job_hash :: "env \<Rightarrow> string \<Rightarrow> string \<Rightarrow> string \<Rightarrow> json pydict \<Rightarrow> string" where
  "get_job_hash env file_url caption_srt caption_type options =
     md5_hexdigest env (json_encode env (sort_keys (JDict
       [(''file_url'', JStr file_url),
        (''caption_srt'', JStr caption_srt),
        (''caption_type'', JStr caption_type),
        (''options'', JDict options)])))"

text \<open>\<^verbatim>\<open>obj[key]\<close> with a string key: only a dictionary that has the key answers.\<close>

definition subscript :: "json \<Rightarrow> string \<Rightarrow> exn + json" where
  "subscript obj key = (case obj of
       JDict kvs \<Rightarrow> (case map_of kvs key of None \<Rightarrow> Inl KeyError | Some v \<Rightarrow> Inr v)
     | _ \<Rightarrow> Inl TypeError)"

text \<open>Lines 168 to 171: the cache entry is read, decoded and its reference returned.\<close>

definition cache_lookup :: "env \<Rightarrow> string \<Rightarrow> json io" where
  "cache_lookup env cache_path =
     bindE (read_file cache_path) (\<lambda>cache_text.
     bindE (liftE (json_decode env cache_text)) (\<lambda>cached_result.
     liftE (subscript cached_result ''output_filename'')))"

text \<open>Line 174.\<close>

definition download_video :: "env \<Rightarrow> string \<Rightarrow> string io" where
  "download_video env file_url =
     bindE (record_call (Download file_url)) (\<lambda>_.
     bindE (liftE (download_file env file_url STORAGE_PATH)) (\<lambda>(video_path, video_bytes).
     (\<lambda>w. (Inr video_path, w\<lparr>files := (files w)(video_path \<mapsto> video_bytes)\<rparr>))))"

text \<open>
  Lines 196 to 214: the subtitle file. A remote \<^verbatim>\<open>srt\<close> or \<^verbatim>\<open>vtt\<close> subtitle is stored as
  fetched; in the other cases the style header is put before the text and the timing
  expansion is applied. \<^verbatim>\<open>raise_for_status\<close> raises a \<^verbatim>\<open>RequestException\<close>.
\<close>

definition write_subtitle_file ::
  "env \<Rightarrow> string \<Rightarrow> string \<Rightarrow> string \<Rightarrow> json \<Rightarrow> string \<Rightarrow> unit io" where
  "write_subtitle_file env caption_srt caption_type caption_style one_word_highlight srt_path =
     (if startswith caption_srt ''https''
      then
        bindE (record_call (Fetch caption_srt)) (\<lambda>_.
        bindE (liftE (requests_get env caption_srt)) (\<lambda>response.
        if status_error response then liftE (Inl RequestException)
        else if caption_type \<in> set [''srt'', ''vtt'']
        then write_file env srt_path (resp_content response)
        else
          bindE (liftE (process_subtitle_content (floats env)
                          (caption_style @ resp_text response) one_word_highlight))
            (\<lambda>subtitle_content. write_file env srt_path subtitle_content)))
      else
        bindE (liftE (process_subtitle_content (floats env)
                        (caption_style @ caption_srt) one_word_highlight))
          (\<lambda>subtitle_content. write_file env srt_path subtitle_content))"

text \<open>
  Lines 219 to 225: the font asset. \<^verbatim>\<open>font_name in FONT_PATHS\<close> hashes the name, which
  raises \<^verbatim>\<open>TypeError\<close> on a list or a dictionary. The result is the asset path, if any.
\<close>

definition in_str_dict :: "json \<Rightarrow> 'v pydict \<Rightarrow> exn + bool" where
  "in_str_dict v d = (case v of
       JStr s \<Rightarrow> Inr (dict_has d s)
     | JList _ \<Rightarrow> Inl TypeError
     | JDict _ \<Rightarrow> Inl TypeError
     | _ \<Rightarrow> Inr False)"

definition select_font :: "env \<Rightarrow> json \<Rightarrow> (string option) io" where
  "select_font env font_name =
     bindE (liftE (in_str_dict font_name (FONT_PATHS (fonts_listing env)))) (\<lambda>found.
     if found
     then liftE (Inr (map_of (FONT_PATHS (fonts_listing env))
                        (case font_name of JStr s \<Rightarrow> s | _ \<Rightarrow> [])))
     else bindE (record_call FontFallback) (\<lambda>_.
          liftE (Inr (map_of (FONT_PATHS (fonts_listing env)) ''Arial''))))"

text \<open>Lines 265 to 287: the probe and the run of the renderer, which writes the output.\<close>

definition render_video :: "env \<Rightarrow> string \<Rightarrow> string \<Rightarrow> string \<Rightarrow> unit io" where
  "render_video env video_path output_path subtitle_filter =
     bindE (record_call (Probe video_path)) (\<lambda>_.
     bindE (\<lambda>w. (ffmpeg_probe_frames env (files w) video_path, w)) (\<lambda>total_frames.
     bindE (record_call (Render video_path output_path subtitle_filter)) (\<lambda>_.
     bindE (\<lambda>w. (ffmpeg_run env (files w) video_path output_path subtitle_filter, w))
       (\<lambda>output_bytes.
     (\<lambda>w. (Inr (), w\<lparr>files := (files w)(output_path \<mapsto> output_bytes)\<rparr>))))))"

text \<open>
  Lines 289 to 300: the upload, the removal of the three staging files, the cache entry.
\<close>

definition upload_and_cleanup ::
  "env \<Rightarrow> string \<Rightarrow> string \<Rightarrow> string \<Rightarrow> string \<Rightarrow> json io" where
  "upload_and_cleanup env video_path srt_path output_path cache_path =
     bindE (record_call (Upload output_path)) (\<lambda>_.
     bindE (\<lambda>w. (upload_to_gcs env (files w) output_path (GCP_BUCKET_NAME env), w))
       (\<lambda>output_filename.
     bindE (os_remove video_path) (\<lambda>_.
     bindE (os_remove srt_path) (\<lambda>_.
     bindE (os_remove output_path) (\<lambda>_.
     bindE (write_file env cache_path
              (json_encode env (JDict [(''output_filename'', JStr output_filename)]))) (\<lambda>_.
     liftE (Inr (JStr output_filename))))))))"

text \<open>The three paths of a job that are derived from its inputs.\<close>

definition cache_path_of :: "env \<Rightarrow> string \<Rightarrow> string \<Rightarrow> string \<Rightarrow> json pydict \<Rightarrow> string" where
  "cache_path_of env file_url caption_srt caption_type options =
     path_join STORAGE_PATH
       (get_job_hash env file_url caption_srt caption_type options @ ''_cache.json'')"

definition srt_path_of :: "string \<Rightarrow> string \<Rightarrow> string" where
  "srt_path_of job_id caption_type = path_join STORAGE_PATH (job_id @ ''.'' @ caption_type)"

definition output_path_of :: "string \<Rightarrow> string" where
  "output_path_of job_id = path_join STORAGE_PATH (job_id @ ''_captioned.mp4'')"

text \<open>
  Lines 173 to 300, the run after a cache miss. The handlers of lines 281 to 287 and 301
  to 312 log the exception and raise it again, so an exception leaves the function as
  it was raised.
\<close>

definition run_pipeline ::
  "env \<Rightarrow> string \<Rightarrow> string \<Rightarrow> string \<Rightarrow> json pydict \<Rightarrow> string \<Rightarrow> string \<Rightarrow> json io" where
  "run_pipeline env file_url caption_srt caption_type options job_id cache_path =
     bindE (download_video env file_url) (\<lambda>video_path.
     (let subtitle_extension = ''.'' @ caption_type;
          srt_path = srt_path_of job_id caption_type;
          one_word_highlight = dict_get options ''one_word_highlight'' (JBool False);
          caption_style = caption_style_of env caption_type options
      in bindE (write_subtitle_file env caption_srt caption_type caption_style
                  one_word_highlight srt_path) (\<lambda>_.
         (let output_path = output_path_of job_id;
              font_name = dict_get options ''font_name'' (JStr ''Arial'')
          in bindE (select_font env font_name) (\<lambda>selected_font.
             bindE (render_video env video_path output_path
                      (build_subtitle_filter env options subtitle_extension srt_path
                         font_name one_word_highlight)) (\<lambda>_.
             upload_and_cleanup env video_path srt_path output_path cache_path))))))"

text \<open>Lines 158 to 312.\<close>

definition process_captioning ::
  "env \<Rightarrow> string \<Rightarrow> string \<Rightarrow> string \<Rightarrow> (string \<times> json) list \<Rightarrow> string \<Rightarrow> json io" where
  "process_captioning env file_url caption_srt caption_type options_array job_id =
     (let options = convert_array_to_collection options_array
      in bindE (liftE (validate_options (fonts_listing env) options)) (\<lambda>_.
         (let cache_path = cache_path_of env file_url caption_srt caption_type options
          in bindE (path_exists cache_path) (\<lambda>cached.
             if cached then cache_lookup env cache_path
             else run_pipeline env file_url caption_srt caption_type options job_id
                    cache_path))))"

text \<open>
  An action takes no font fallback when it records the warning of line 225 only if it was
  recorded before.
\<close>

definition no_fallback :: "'a io \<Rightarrow> bool" where
  "no_fallback m =
     (\<forall>w r w'. m w = (r, w') \<longrightarrow> FontFallback \<in> set (calls w') \<longrightarrow> FontFallback \<in> set (calls w))"

section \<open>An example environment\<close>

text \<open>
  A small environment on which the definitions can be run: two fonts are installed, the
  floating-point operations are exact, the encoder writes \<^verbatim>\<open>json\<close> without escapes, the
  decoder reads back a cache entry, the digest is a polynomial checksum, and the
  collaborators serve one video and two subtitle files.
\<close>

definition dquote :: string where
  "dquote = [CHR 0x22]"

definition exact_floats :: float_ops where
  "exact_floats = \<lparr> total_seconds = (\<lambda>us. of_int us / 1000000),
                     fdiv = (\<lambda>a b. a / b),
                     fmul = (\<lambda>a b. a * b),
                     timedelta_seconds = (\<lambda>q. \<lfloor>q * 1000000\<rfloor>) \<rparr>"

fun example_encode :: "json \<Rightarrow> string" where
  "example_encode JNull = ''null''"
| "example_encode (JBool b) = (if b then ''true'' else ''false'')"
| "example_encode (JInt i) = str_int i"
| "example_encode (JFloat q) = ''0.0''"
| "example_encode (JStr s) = dquote @ s @ dquote"
| "example_encode (JList xs) = ''['' @ join '', '' (map example_encode xs) @ '']''"
| "example_encode (JDict kvs) =
     ''{'' @ join '', '' (map (\<lambda>kv. dquote @ fst kv @ dquote @ '': '' @ example_encode (snd kv)) kvs)
       @ ''}''"

definition example_decode :: "string \<Rightarrow> exn + json" where
  "example_decode s =
     (let prefix = ''{'' @ dquote @ ''output_filename'' @ dquote @ '': '' @ dquote;
          suffix = dquote @ ''}''
      in if startswith s prefix \<and> endswith (drop (length prefix) s) suffix
         then Inr (JDict [(''output_filename'',
                 JStr (take (length s - length prefix - length suffix)
                         (drop (length prefix) s)))])
         else Inl JSONDecodeError)"

definition example_digest :: "string \<Rightarrow> string" where
  "example_digest s = str_int (foldl (\<lambda>a c. (a * 31 + of_char c) mod 65521) 7 s)"

definition example_cue :: string where
  "example_cue = ''1'' @ newline @ ''00:00:01,000 --> 00:00:03,000'' @ newline @ ''a b'' @ newline"

definition example_env :: env where
  "example_env =
     \<lparr> fonts_listing = [''Arial.ttf'', ''Roboto.TTF'', ''README.txt''],
       floats = exact_floats,
       json_encode = example_encode,
       json_decode = example_decode,
       md5_hexdigest = example_digest,
       py_repr = (\<lambda>v. ''?''),
       download_file = (\<lambda>url dir.
          if url = ''https://example.com/video.mp4'' then Inr (dir @ ''video.mp4'', ''VIDEO'')
          else Inl RequestException),
       requests_get = (\<lambda>url.
          if url = ''https://example.com/captions.srt''
          then Inr \<lparr> status_error = False, resp_content = example_cue, resp_text = example_cue \<rparr>
          else if url = ''https://example.com/captions.ass''
          then Inr \<lparr> status_error = False, resp_content = ''Dialogue: 0,a b'',
                      resp_text = ''Dialogue: 0,a b'' \<rparr>
          else Inl RequestException),
       ffmpeg_probe_frames = (\<lambda>fs p. if fs p \<noteq> None then Inr 100 else Inl FFmpegError),
       ffmpeg_run = (\<lambda>fs video_path output_path vf.
          if fs video_path \<noteq> None then Inr ''CAPTIONED'' else Inl FFmpegError),
       upload_to_gcs = (\<lambda>fs p bucket.
          if fs p \<noteq> None then Inr (''https://storage.googleapis.com/'' @ bucket @ p)
          else Inl FileNotFoundError),
       GCP_BUCKET_NAME = ''bucket'',
       writable = (\<lambda>p. True) \<rparr>"

definition example_options :: "(string \<times> json) list" where
  "example_options =
     [(''font_name'', JStr ''Arial''), (''font_size'', JInt 24),
      (''primary_color'', JStr ''&H00FFFFFF''), (''one_word_highlight'', JBool True)]"

definition empty_world :: world where
  "empty_world = \<lparr> files = Map.empty, calls = [] \<rparr>"

text \<open>
  Variants: an upload that fails, a cache path that cannot be written, and a state whose
  cache entry for the example job is not \<^verbatim>\<open>json\<close>.
\<close>

definition failing_upload_env :: env where
  "failing_upload_env =
     example_env\<lparr> upload_to_gcs := (\<lambda>fs p bucket. Inl (OtherException ''upload failed'')) \<rparr>"

definition example_cache_path :: string where
  "example_cache_path = ''/tmp/64424_cache.json''"

definition readonly_cache_env :: env where
  "readonly_cache_env = example_env\<lparr> writable := (\<lambda>p. p \<noteq> example_cache_path) \<rparr>"

definition corrupt_cache_world :: world where
  "corrupt_cache_world = \<lparr> files = [example_cache_path \<mapsto> ''{'' @ dquote @ ''output_fi''],
                            calls = [] \<rparr>"

definition example_run :: "env \<Rightarrow> string \<Rightarrow> world \<Rightarrow> (exn + json) \<times> world" where
  "example_run env job_id w =
     process_captioning env ''https://example.com/video.mp4''
       ''https://example.com/captions.srt'' ''srt'' example_options job_id w"

text \<open>The example options with the boolean \<^verbatim>\<open>true\<close> as font size.\<close>

definition boolean_size_options :: "(string \<times> json) list" where
  "boolean_size_options =
     [(''font_name'', JStr ''Arial''), (''font_size'', JBool True),
      (''primary_color'', JStr ''&H00FFFFFF''), (''one_word_highlight'', JBool True)]"

section \<open>Facts about strings and timestamps\<close>

lemma set_strip: "set (strip s) \<subseteq> set s"
  unfolding strip_def by (metis set_dropWhileD set_rev subsetI)

lemma split_on_ne: "split_on sep s \<noteq> []"
  by (induction sep s rule: split_on.induct) (auto split: list.splits)

lemma split_on_char_notin: "p \<in> set (split_on [c] s) \<Longrightarrow> c \<notin> set p"
  by (induction "[c]" s arbitrary: p rule: split_on.induct)
     (auto simp: startswith_def split: list.splits if_splits)

lemma alt2_rest: "(v, r) \<in> set (alt2 p1 p2 s) \<Longrightarrow> set r \<subseteq> set s"
  by (auto simp: alt2_def split: list.splits if_splits)

lemma alt1_rest: "(v, r) \<in> set (alt1 s) \<Longrightarrow> set r \<subseteq> set s"
  by (auto simp: alt1_def split: list.splits if_splits)

lemma re_H_rest: "(v, r) \<in> set (re_H s) \<Longrightarrow> set r \<subseteq> set s"
  unfolding re_H_def using alt2_rest alt1_rest by fastforce

lemma re_M_rest: "(v, r) \<in> set (re_M s) \<Longrightarrow> set r \<subseteq> set s"
  unfolding re_M_def using alt2_rest alt1_rest by fastforce

lemma re_S_rest: "(v, r) \<in> set (re_S s) \<Longrightarrow> set r \<subseteq> set s"
  unfolding re_S_def using alt2_rest alt1_rest by fastforce

lemma lit_rest: "r \<in> set (lit c s) \<Longrightarrow> set r \<subseteq> set s \<and> c \<in> set s"
  by (auto simp: lit_def split: list.splits if_splits)

text \<open>The format has a literal comma: data without a comma never matches.\<close>

lemma strptime_matches_no_comma:
  assumes "CHR '','' \<notin> set s"
  shows "strptime_matches s = []"
proof (rule ccontr)
  assume "strptime_matches s \<noteq> []"
  then obtain x where "x \<in> set (strptime_matches s)"
    by (meson last_in_set)
  then obtain h r1 r2 m r3 r4 sec r5 r6 where
    "(h, r1) \<in> set (re_H s)" "r2 \<in> set (lit (CHR '':'') r1)"
    "(m, r3) \<in> set (re_M r2)" "r4 \<in> set (lit (CHR '':'') r3)"
    "(sec, r5) \<in> set (re_S r4)" "r6 \<in> set (lit (CHR '','') r5)"
    unfolding strptime_matches_def by auto
  then have "CHR '','' \<in> set s"
    using re_H_rest re_M_rest re_S_rest lit_rest by (meson subsetD)
  with assms show False by simp
qed

lemma strptime_no_comma: "CHR '','' \<notin> set s \<Longrightarrow> strptime s = Inl ValueError"
  by (simp add: strptime_def strptime_matches_no_comma)

lemma strptime_raises: "strptime s = Inl e \<Longrightarrow> e = ValueError"
  by (auto simp: strptime_def split: list.splits if_splits)

text \<open>
  The end time is parsed from a piece of \<^verbatim>\<open>text_part.split(',')\<close>, which has no comma:
  whatever the line, the expansion of a cue line raises \<^verbatim>\<open>ValueError\<close>.
\<close>

lemma expand_cue_raises: "expand_cue fo line = Inl ValueError"
proof -
  have end_fails: "strptime (strip p) = Inl ValueError" if "split_on '','' t = p # ps" for t p ps
  proof -
    have "p \<in> set (split_on [CHR '',''] t)" using that by simp
    then have "CHR '','' \<notin> set p" by (rule split_on_char_notin)
    then have "CHR '','' \<notin> set (strip p)" using set_strip by blast
    then show ?thesis by (rule strptime_no_comma)
  qed
  show ?thesis
    unfolding expand_cue_def
    by (auto split: list.splits sum.splits simp: end_fails split_on_ne dest: strptime_raises)
qed

lemma process_lines_cue:
  "\<exists>l \<in> set ls. is_cue_line l \<Longrightarrow> process_lines fo ls = Inl ValueError"
proof (induction ls)
  case Nil
  then show ?case by simp
next
  case (Cons l ls)
  show ?case
  proof (cases "is_cue_line l")
    case True
    then show ?thesis by (simp add: process_line_def expand_cue_raises)
  next
    case False
    with Cons.prems have "\<exists>l \<in> set ls. is_cue_line l" by simp
    then have "process_lines fo ls = Inl ValueError" by (rule Cons.IH)
    with False show ?thesis by (simp add: process_line_def)
  qed
qed



lemma strip_empty_iff: "strip s = [] \<longleftrightarrow> (\<forall>c \<in> set s. is_space c)"
proof -
  define d where "d = dropWhile is_space s"
  have d_empty: "d = [] \<longleftrightarrow> (\<forall>c \<in> set s. is_space c)"
    by (simp add: d_def)
  have "dropWhile is_space (rev d) = [] \<longleftrightarrow> d = []"
  proof (cases d)
    case Nil
    then show ?thesis by simp
  next
    case (Cons x xs)
    then have "\<not> is_space x"
      unfolding d_def by (metis hd_dropWhile list.sel(1) list.distinct(1))
    moreover have "x \<in> set (rev d)" using Cons by simp
    ultimately have "dropWhile is_space (rev d) \<noteq> []"
      unfolding dropWhile_eq_Nil_conv by blast
    with Cons show ?thesis by simp
  qed
  moreover have "strip s = [] \<longleftrightarrow> dropWhile is_space (rev d) = []"
    by (simp add: strip_def d_def)
  ultimately show ?thesis using d_empty by blast
qed

lemma contains_set: "contains sub s \<Longrightarrow> set sub \<subseteq> set s"
proof (induction s)
  case Nil
  then show ?case by simp
next
  case (Cons c cs)
  from Cons.prems have "startswith (c # cs) sub \<or> contains sub cs" by simp
  then show ?case
  proof
    assume "startswith (c # cs) sub"
    then have "sub = take (length sub) (c # cs)" by (simp add: startswith_def)
    then have "set sub \<subseteq> set (c # cs)" by (metis set_take_subset)
    then show ?thesis .
  next
    assume "contains sub cs"
    then show ?thesis using Cons.IH by auto
  qed
qed

lemma contains_arrow_not_blank: "contains ''-->'' l \<Longrightarrow> strip l \<noteq> []"
proof -
  assume "contains ''-->'' l"
  then have "CHR ''-'' \<in> set l" using contains_set by fastforce
  moreover have "\<not> is_space (CHR ''-'')" by (simp add: is_space_def)
  ultimately show ?thesis by (auto simp: strip_empty_iff)
qed

lemma split_on_first: "split_on [c] s = p # ps \<Longrightarrow> p = takeWhile (\<lambda>y. y \<noteq> c) s"
proof (induction "[c]" s arbitrary: p ps rule: split_on.induct)
  case 1
  then show ?case by simp
next
  case (2 x xs)
  obtain q qs where sp: "split_on [c] xs = q # qs"
    using split_on_ne by (cases "split_on [c] xs") auto
  show ?case
  proof (cases "x = c")
    case True
    with 2 show ?thesis by (simp add: startswith_def)
  next
    case False
    with 2 sp show ?thesis by (simp add: startswith_def)
  qed
qed

lemma take_takeWhile_notin:
  "c \<notin> set (take n ys) \<Longrightarrow> take n (takeWhile (\<lambda>y. y \<noteq> c) ys) = take n ys"
  by (induction ys arbitrary: n) (auto simp: take_Cons split: nat.splits)

lemma contains_Cons: "contains sub s \<Longrightarrow> contains sub (x # s)"
  by simp

lemma contains_split_on:
  "contains sub s \<Longrightarrow> c \<notin> set sub \<Longrightarrow> sub \<noteq> [] \<Longrightarrow> \<exists>l \<in> set (split_on [c] s). contains sub l"
proof (induction "[c]" s rule: split_on.induct)
  case 1
  then show ?case by simp
next
  case (2 x xs)
  obtain p ps where sp: "split_on [c] xs = p # ps"
    using split_on_ne by (cases "split_on [c] xs") auto
  show ?case
  proof (cases "x = c")
    case True
    have "\<not> startswith (x # xs) sub"
    proof
      assume "startswith (x # xs) sub"
      then have "sub = take (length sub) (x # xs)" by (simp add: startswith_def)
      with \<open>sub \<noteq> []\<close> have "hd sub = x" by (cases sub) auto
      with True \<open>sub \<noteq> []\<close> \<open>c \<notin> set sub\<close> show False by (cases sub) auto
    qed
    with "2.prems" have "contains sub xs" by simp
    with 2 True have "\<exists>l \<in> set (split_on [c] xs). contains sub l"
      by (simp add: startswith_def)
    with True show ?thesis by (simp add: startswith_def)
  next
    case False
    then have split: "split_on [c] (x # xs) = (x # p) # ps"
      using sp by (simp add: startswith_def)
    from "2.prems" have "startswith (x # xs) sub \<or> contains sub xs" by simp
    then show ?thesis
    proof
      assume sw: "startswith (x # xs) sub"
      obtain y ys where sub: "sub = y # ys" using \<open>sub \<noteq> []\<close> by (cases sub) auto
      with sw have "y = x" and ys: "take (length ys) xs = ys" by (simp_all add: startswith_def)
      have "c \<notin> set (take (length ys) xs)" using ys sub \<open>c \<notin> set sub\<close> by simp
      then have "take (length ys) (takeWhile (\<lambda>y. y \<noteq> c) xs) = ys"
        using ys by (simp add: take_takeWhile_notin)
      then have "take (length ys) p = ys" using split_on_first [OF sp] by simp
      then have "startswith (x # p) sub" using sub \<open>y = x\<close> by (simp add: startswith_def)
      then have "contains sub (x # p)" by simp
      with split show ?thesis by simp
    next
      assume "contains sub xs"
      with 2 False have "\<exists>l \<in> set (split_on [c] xs). contains sub l"
        by (simp add: startswith_def)
      then obtain l where "l \<in> set (p # ps)" "contains sub l" using sp by auto
      then show ?thesis using split by (auto intro: contains_Cons)
    qed
  qed
qed



text \<open>
  With word highlighting on, a subtitle text with \<^verbatim>\<open>-->\<close> anywhere makes
  \<^verbatim>\<open>process_subtitle_content\<close> raise \<^verbatim>\<open>ValueError\<close>; without any such line, the text
  comes back as it is.
\<close>

lemma process_subtitle_content_raises:
  assumes "truthy one_word_highlight" and "contains ''-->'' content"
  shows "process_subtitle_content fo content one_word_highlight = Inl ValueError"
proof -
  have "\<exists>l \<in> set (split_on newline content). contains ''-->'' l"
    unfolding newline_def using assms(2) by (rule contains_split_on) simp_all
  then have "\<exists>l \<in> set (split_on newline content). is_cue_line l"
    by (meson is_cue_line_def contains_arrow_not_blank)
  then have "process_lines fo (split_on newline content) = Inl ValueError"
    by (rule process_lines_cue)
  with assms(1) show ?thesis by (simp add: process_subtitle_content_def)
qed


section \<open>Facts about the orchestration\<close>

lemma bindE_Inr:
  "bindE m f w = (Inr y, w'') \<Longrightarrow> \<exists>x w'. m w = (Inr x, w') \<and> f x w' = (Inr y, w'')"
  by (auto simp: bindE_def split: prod.splits sum.splits)

lemma bindE_Inl: "m w = (Inl e, w') \<Longrightarrow> bindE m f w = (Inl e, w')"
  by (simp add: bindE_def)

lemma bindE_step: "m w = (Inr x, w') \<Longrightarrow> bindE m f w = f x w'"
  by (simp add: bindE_def)

lemma cache_lookup_world: "cache_lookup env p w = (r, w') \<Longrightarrow> w' = w"
  by (auto simp: cache_lookup_def bindE_def liftE_def read_file_def
           split: prod.splits sum.splits option.splits)

lemma os_remove_success:
  "os_remove p w = (Inr u, w') \<Longrightarrow> w' = w\<lparr>files := (files w)(p := None)\<rparr>"
  by (auto simp: os_remove_def split: if_splits)

lemma write_file_success:
  "write_file env p c w = (Inr u, w') \<Longrightarrow> writable env p \<and> w' = w\<lparr>files := (files w)(p \<mapsto> c)\<rparr>"
  by (auto simp: write_file_def split: if_splits)

text \<open>
  A successful end of the run: the reference is a string, the cache entry holds it, and
  the three staging paths are free, but for one that is the cache path itself.
\<close>

lemma upload_and_cleanup_success:
  assumes "upload_and_cleanup env video_path srt_path output_path cache_path w = (Inr out, w')"
  shows "\<exists>output_filename. out = JStr output_filename
           \<and> writable env cache_path
           \<and> files w' cache_path
               = Some (json_encode env (JDict [(''output_filename'', JStr output_filename)]))
           \<and> (\<forall>p \<in> {video_path, srt_path, output_path}. p \<noteq> cache_path \<longrightarrow> files w' p = None)
           \<and> calls w' = calls w @ [Upload output_path]"
  using assms unfolding upload_and_cleanup_def
  by (auto dest!: bindE_Inr os_remove_success write_file_success
           simp: record_call_def liftE_def)

lemma run_pipeline_success:
  assumes "run_pipeline env file_url caption_srt caption_type options job_id cache_path w
             = (Inr out, w')"
  shows "\<exists>video_path video_bytes w0.
           download_file env file_url STORAGE_PATH = Inr (video_path, video_bytes)
         \<and> upload_and_cleanup env video_path (srt_path_of job_id caption_type)
              (output_path_of job_id) cache_path w0 = (Inr out, w')"
proof -
  from assms obtain video_path w1 w4 where
    d: "download_video env file_url w = (Inr video_path, w1)"
    and u: "upload_and_cleanup env video_path (srt_path_of job_id caption_type)
              (output_path_of job_id) cache_path w4 = (Inr out, w')"
    unfolding run_pipeline_def Let_def by (auto dest!: bindE_Inr)
  from d obtain video_bytes where
    "download_file env file_url STORAGE_PATH = Inr (video_path, video_bytes)"
    by (auto simp: download_video_def bindE_def record_call_def liftE_def
             split: sum.splits prod.splits)
  with u show ?thesis by blast
qed

lemma validate_options_raises: "validate_options listing options = Inl e \<Longrightarrow> e = ValueError"
  by (auto simp: validate_options_def split: if_splits)

lemma process_captioning_invalid:
  assumes "validate_options (fonts_listing env) (convert_array_to_collection options_array) = Inl e"
  shows "process_captioning env file_url caption_srt caption_type options_array job_id w = (Inl e, w)"
  using assms by (simp add: process_captioning_def bindE_def liftE_def)

lemma process_captioning_valid:
  assumes "validate_options (fonts_listing env) (convert_array_to_collection options_array) = Inr u"
  shows "process_captioning env file_url caption_srt caption_type options_array job_id w
       = (let options = convert_array_to_collection options_array;
              cache_path = cache_path_of env file_url caption_srt caption_type options
          in if files w cache_path \<noteq> None then cache_lookup env cache_path w
             else run_pipeline env file_url caption_srt caption_type options job_id cache_path w)"
  using assms by (simp add: process_captioning_def bindE_def liftE_def path_exists_def Let_def)

lemma process_captioning_success_valid:
  assumes "process_captioning env file_url caption_srt caption_type options_array job_id w
             = (Inr out, w')"
  shows "validate_options (fonts_listing env) (convert_array_to_collection options_array) = Inr ()"
  using assms
  by (cases "validate_options (fonts_listing env) (convert_array_to_collection options_array)")
     (simp_all add: process_captioning_def bindE_def liftE_def)

text \<open>The example job, run on the example environment from the empty state.\<close>

lemma example_run_result:
  "fst (example_run example_env ''job1'' empty_world)
     = Inr (JStr ''https://storage.googleapis.com/bucket/tmp/job1_captioned.mp4'')"
  by code_simp

lemma example_cache_path_eq:
  "cache_path_of example_env ''https://example.com/video.mp4''
     ''https://example.com/captions.srt'' ''srt'' (convert_array_to_collection example_options)
   = example_cache_path"
  by code_simp

lemma cache_path_of_update:
  "cache_path_of (env\<lparr>writable := f\<rparr>) = cache_path_of env"
  "cache_path_of (env\<lparr>upload_to_gcs := g\<rparr>) = cache_path_of env"
  by (simp_all add: cache_path_of_def get_job_hash_def fun_eq_iff)

lemma upload_and_cleanup_removed:
  assumes "upload_and_cleanup env video_path srt_path output_path cache_path w = (Inr out, w')"
    and "p = video_path \<or> p = srt_path \<or> p = output_path" and "p \<noteq> cache_path"
  shows "files w' p = None"
proof -
  from upload_and_cleanup_success [OF assms(1)] obtain output_filename :: string where
    "\<forall>p \<in> {video_path, srt_path, output_path}. p \<noteq> cache_path \<longrightarrow> files w' p = None"
    by (elim exE conjE)
  with assms(2,3) show ?thesis by auto
qed

text \<open>When the upload fails nothing is removed: only the trace grows.\<close>

lemma upload_failure_keeps_files:
  assumes "upload_to_gcs env (files w) output_path (GCP_BUCKET_NAME env) = Inl e"
  shows "upload_and_cleanup env video_path srt_path output_path cache_path w
           = (Inl e, w\<lparr>calls := calls w @ [Upload output_path]\<rparr>)"
  using assms by (simp add: upload_and_cleanup_def bindE_def record_call_def)

text \<open>
  Validation comes first. When the options lack \<^verbatim>\<open>font_size\<close>, or give a font size that
  is 0 or that \<^verbatim>\<open>isinstance(x, int)\<close> refuses (a string, a float, \<^verbatim>\<open>null\<close>, a list, a
  dictionary; not a boolean), or name a font that is not in the allow-list, the call raises
  \<^verbatim>\<open>ValueError\<close> and leaves the state as it was: no file is written and nothing is asked
  of the collaborators.
\<close>

lemma validation_rejects_before_collaborators:
  assumes "options = convert_array_to_collection options_array"
    and "\<not> dict_has options ''font_size''
         \<or> dict_get options ''font_size'' JNull = JInt 0
         \<or> \<not> isinstance_int (dict_get options ''font_size'' JNull)
         \<or> \<not> in_str_list (dict_get options ''font_name'' JNull)
               (ACCEPTABLE_FONTS (fonts_listing env))"
  shows "process_captioning env file_url caption_srt caption_type options_array job_id w
           = (Inl ValueError, w)"
proof -
  have "validate_options (fonts_listing env) options = Inl ValueError"
    using assms(2) by (auto simp: validate_options_def)
  then show ?thesis
    unfolding assms(1) by (rule process_captioning_invalid)
qed

section \<open>Facts about the fingerprint\<close>

lemma distinct_convert: "distinct (map fst (convert_array_to_collection xs))"
proof -
  have "distinct (map fst d) \<Longrightarrow> distinct (map fst (foldl (\<lambda>d (k, v). AList.update k v d) d xs))" for d :: "json pydict"
    by (induction xs arbitrary: d) (auto simp: AList.distinct_update split: prod.splits)
  then show ?thesis by (simp add: convert_array_to_collection_def)
qed

lemma sort_key_fst_unique:
  assumes "distinct (map fst xs)" "distinct (map fst ys)" "map_of xs = map_of ys"
  shows "sort_key fst xs = sort_key fst (ys :: (string \<times> 'a) list)"
proof -
  have "set xs = set ys" using assms by (simp add: map_of_inject_set)
  moreover have "distinct xs" "distinct ys" using assms by (simp_all add: distinct_map)
  ultimately have "mset xs = mset ys" by (simp add: set_eq_iff_mset_eq_distinct)
  then have "mset xs = mset (sort_key fst ys)" by simp
  moreover have "inj_on fst (set xs)" using assms(1) by (simp add: distinct_map)
  moreover have "sorted (map fst (sort_key fst ys))" by simp
  ultimately show ?thesis by (rule sort_key_inj_key_eq)
qed

lemma sort_keys_dict_eq:
  assumes "distinct (map fst d1)" "distinct (map fst d2)" "map_of d1 = map_of d2"
  shows "sort_keys (JDict d1) = sort_keys (JDict d2)"
proof -
  let ?g = "\<lambda>kv :: string \<times> json. (fst kv, sort_keys (snd kv))"
  have "distinct (map fst (map ?g d1))" "distinct (map fst (map ?g d2))"
    using assms by (simp_all add: comp_def)
  moreover have "map_of (map ?g d) = map_option sort_keys \<circ> map_of d" for d
    by (induction d) (auto simp: fun_eq_iff)
  then have "map_of (map ?g d1) = map_of (map ?g d2)" using assms(3) by simp
  ultimately have "sort_key fst (map ?g d1) = sort_key fst (map ?g d2)"
    by (rule sort_key_fst_unique)
  then show ?thesis by simp
qed

section \<open>Facts about the font fallback\<close>

lemma no_fallback_bindE:
  assumes "no_fallback m" and "\<And>x. no_fallback (f x)"
  shows "no_fallback (bindE m f)"
  unfolding no_fallback_def
proof (intro allI impI)
  fix w r w'
  assume run: "bindE m f w = (r, w')" and fb: "FontFallback \<in> set (calls w')"
  obtain r1 w1 where m: "m w = (r1, w1)" by (cases "m w")
  show "FontFallback \<in> set (calls w)"
  proof (cases r1)
    case (Inl e)
    with run m have "w' = w1" by (simp add: bindE_def)
    with fb m assms(1) show ?thesis unfolding no_fallback_def by blast
  next
    case (Inr x)
    with run m have "f x w1 = (r, w')" by (simp add: bindE_def)
    with fb assms(2) have "FontFallback \<in> set (calls w1)" unfolding no_fallback_def by blast
    with m assms(1) show ?thesis unfolding no_fallback_def by blast
  qed
qed

lemma no_fallback_same_calls:
  assumes "\<And>w r w'. m w = (r, w') \<Longrightarrow> calls w' = calls w"
  shows "no_fallback m"
  unfolding no_fallback_def using assms by fastforce

lemma no_fallback_liftE: "no_fallback (liftE r)"
  by (rule no_fallback_same_calls) (simp add: liftE_def)

lemma no_fallback_record_call: "c \<noteq> FontFallback \<Longrightarrow> no_fallback (record_call c)"
  by (auto simp: no_fallback_def record_call_def)

lemma no_fallback_write_file: "no_fallback (write_file env p c)"
  by (rule no_fallback_same_calls) (auto simp: write_file_def split: if_splits)

lemma no_fallback_os_remove: "no_fallback (os_remove p)"
  by (rule no_fallback_same_calls) (auto simp: os_remove_def split: if_splits)

lemma no_fallback_cache_lookup: "no_fallback (cache_lookup env p)"
  by (rule no_fallback_same_calls) (auto dest: cache_lookup_world)

lemma no_fallback_download_video: "no_fallback (download_video env file_url)"
  unfolding download_video_def
  by (intro no_fallback_bindE no_fallback_record_call no_fallback_liftE)
     (auto intro!: no_fallback_same_calls)

lemma no_fallback_write_subtitle_file:
  "no_fallback (write_subtitle_file env caption_srt caption_type caption_style
                  one_word_highlight srt_path)"
  unfolding write_subtitle_file_def
  by (auto intro!: no_fallback_bindE no_fallback_record_call no_fallback_liftE
                   no_fallback_write_file)

lemma no_fallback_render_video:
  "no_fallback (render_video env video_path output_path subtitle_filter)"
  unfolding render_video_def
  by (intro no_fallback_bindE no_fallback_record_call)
     (auto intro!: no_fallback_same_calls)

lemma no_fallback_upload_and_cleanup:
  "no_fallback (upload_and_cleanup env video_path srt_path output_path cache_path)"
  unfolding upload_and_cleanup_def
  by (intro no_fallback_bindE no_fallback_record_call no_fallback_os_remove
            no_fallback_write_file no_fallback_liftE)
     (auto intro!: no_fallback_same_calls)

text \<open>After validation the font name is a key of the catalogue.\<close>

lemma select_font_valid:
  assumes "validate_options (fonts_listing env) options = Inr ()"
  shows "\<exists>name path. dict_get options ''font_name'' (JStr ''Arial'') = JStr name
       \<and> map_of (FONT_PATHS (fonts_listing env)) name = Some path
       \<and> (\<forall>w. select_font env (dict_get options ''font_name'' (JStr ''Arial'')) w
                = (Inr (Some path), w))"
proof -
  from assms have has: "dict_has options ''font_name''"
    and ok: "in_str_list (dict_get options ''font_name'' JNull)
               (ACCEPTABLE_FONTS (fonts_listing env))"
    by (auto simp: validate_options_def split: if_splits)
  from has obtain v where v: "map_of options ''font_name'' = Some v"
    by (auto simp: dict_has_def)
  with ok obtain name where name: "v = JStr name"
    and mem: "name \<in> set (ACCEPTABLE_FONTS (fonts_listing env))"
    by (auto simp: in_str_list_def dict_get_def split: json.splits)
  from mem obtain path where path: "map_of (FONT_PATHS (fonts_listing env)) name = Some path"
    by (auto simp: ACCEPTABLE_FONTS_def) (metis map_of_eq_None_iff not_Some_eq image_eqI fst_conv)
  have "select_font env (JStr name) w = (Inr (Some path), w)" for w
    using path by (simp add: select_font_def in_str_dict_def dict_has_def bindE_def liftE_def)
  with v name path show ?thesis by (simp add: dict_get_def)
qed

lemma no_fallback_run_pipeline:
  assumes "validate_options (fonts_listing env) options = Inr ()"
  shows "no_fallback (run_pipeline env file_url caption_srt caption_type options job_id
                        cache_path)"
proof -
  from select_font_valid [OF assms] have
    "no_fallback (select_font env (dict_get options ''font_name'' (JStr ''Arial'')))"
    by (intro no_fallback_same_calls) auto
  then show ?thesis
    unfolding run_pipeline_def Let_def
    by (intro no_fallback_bindE no_fallback_download_video no_fallback_write_subtitle_file
              no_fallback_render_video no_fallback_upload_and_cleanup)
qed

lemma no_fallback_process_captioning:
  "no_fallback (process_captioning env file_url caption_srt caption_type options_array job_id)"
proof (cases "validate_options (fonts_listing env) (convert_array_to_collection options_array)")
  case (Inl e)
  show ?thesis
    by (rule no_fallback_same_calls) (simp add: process_captioning_invalid [OF Inl])
next
  case (Inr u)
  then have valid: "validate_options (fonts_listing env)
                      (convert_array_to_collection options_array) = Inr ()"
    by simp
  show ?thesis
    unfolding no_fallback_def process_captioning_valid [OF valid] Let_def
    using no_fallback_cache_lookup no_fallback_run_pipeline [OF valid]
    unfolding no_fallback_def by (auto split: if_splits)
qed

section \<open>The claims on timing expansion\<close>

text \<open>
  Claim C2. The specification expects that the cue \<^verbatim>\<open>00:00:01,000 --> 00:00:03,000\<close> with
  text \<^verbatim>\<open>a b\<close> is expanded into two cues of one second each. On the code the call raises
  \<^verbatim>\<open>ValueError\<close> instead, whatever the floating-point arithmetic: the end time is parsed
  from \<^verbatim>\<open>00:00:03\<close>, which lacks the \<^verbatim>\<open>,%f\<close> part of the format. This holds for the cue
  written as a subtitle file has it (timing line, then text line) and for the cue written
  on one line, with the text after the timing.
\<close>

theorem C2_expansion_raises:
  "process_subtitle_content fo
     (''1'' @ newline @ ''00:00:01,000 --> 00:00:03,000'' @ newline @ ''a b'' @ newline)
     (JBool True) = Inl ValueError
   \<and> process_subtitle_content fo ''00:00:01,000 --> 00:00:03,000,a b'' (JBool True)
       = Inl ValueError
   \<and> strptime ''00:00:01,000'' = Inr 1000000
   \<and> strptime ''00:00:03'' = Inl ValueError"
proof -
  have "contains ''-->''
     (''1'' @ newline @ ''00:00:01,000 --> 00:00:03,000'' @ newline @ ''a b'' @ newline)"
    by (simp add: newline_def startswith_def)
  moreover have "contains ''-->'' ''00:00:01,000 --> 00:00:03,000,a b''"
    by (simp add: startswith_def)
  moreover have "strptime ''00:00:01,000'' = Inr 1000000"
    by code_simp
  moreover have "strptime ''00:00:03'' = Inl ValueError"
    by (rule strptime_no_comma) simp
  ultimately show ?thesis
    by (simp add: process_subtitle_content_raises)
qed

text \<open>
  Claim C3. The specification expects that a cue whose text has no word is dropped or
  passed through, and that the function returns. On the code the call does not return
  normally: the timing line of the cue raises \<^verbatim>\<open>ValueError\<close> (the defect of claim C2),
  and behind that parse the division by the number of words has no guard, so that a text
  without words raises \<^verbatim>\<open>ZeroDivisionError\<close> there.
\<close>

theorem C3_zero_words_raises:
  "process_subtitle_content fo
     (''1'' @ newline @ ''00:00:01,000 --> 00:00:03,000'' @ newline @ ''   '' @ newline)
     (JBool True) = Inl ValueError
   \<and> process_subtitle_content fo ''00:00:01,000 --> 00:00:03,000,   '' (JBool True)
       = Inl ValueError
   \<and> emit_words fo 1000000 3000000 ''   '' = Inl ZeroDivisionError"
proof -
  have "contains ''-->''
     (''1'' @ newline @ ''00:00:01,000 --> 00:00:03,000'' @ newline @ ''   '' @ newline)"
    by (simp add: newline_def startswith_def)
  moreover have "contains ''-->'' ''00:00:01,000 --> 00:00:03,000,   ''"
    by (simp add: startswith_def)
  moreover have "findall_nonspace ''   '' = []"
    by (simp add: findall_nonspace_def is_space_def)
  ultimately show ?thesis
    by (simp add: process_subtitle_content_raises emit_words_def)
qed

section \<open>The claim on clean-up\<close>

text \<open>
  Claim C1. The specification expects that no staging file is left after a call, also when
  the call raises. The code removes the staging files on one path only, after a successful
  upload (lines 292 to 294); its handlers log and raise again. With an upload that fails,
  the example job raises and leaves the downloaded video, the subtitle file and the
  rendered output in the working directory.
\<close>

theorem C1_upload_failure_counterexample:
  "fst (example_run failing_upload_env ''job1'' empty_world) = Inl (OtherException ''upload failed'')
   \<and> files (snd (example_run failing_upload_env ''job1'' empty_world)) ''/tmp/video.mp4''
       = Some ''VIDEO''
   \<and> files (snd (example_run failing_upload_env ''job1'' empty_world))
         (srt_path_of ''job1'' ''srt'') = Some example_cue
   \<and> files (snd (example_run failing_upload_env ''job1'' empty_world))
         (output_path_of ''job1'') = Some ''CAPTIONED''
   \<and> download_file failing_upload_env ''https://example.com/video.mp4'' STORAGE_PATH
       = Inr (''/tmp/video.mp4'', ''VIDEO'')"
proof -
  have "fst (example_run failing_upload_env ''job1'' empty_world)
          = Inl (OtherException ''upload failed'')"
    by code_simp
  moreover have "files (snd (example_run failing_upload_env ''job1'' empty_world))
                   ''/tmp/video.mp4'' = Some ''VIDEO''"
    by code_simp
  moreover have "files (snd (example_run failing_upload_env ''job1'' empty_world))
                   (srt_path_of ''job1'' ''srt'') = Some example_cue"
    by code_simp
  moreover have "files (snd (example_run failing_upload_env ''job1'' empty_world))
                   (output_path_of ''job1'') = Some ''CAPTIONED''"
    by code_simp
  moreover have "download_file failing_upload_env ''https://example.com/video.mp4'' STORAGE_PATH
                   = Inr (''/tmp/video.mp4'', ''VIDEO'')"
    by code_simp
  ultimately show ?thesis by simp
qed

text \<open>
  Claim C1, as amended. When a call returns a reference after a cache miss, the
  downloaded video, the subtitle file and the rendered output are gone from the working
  directory (a staging path that is the cache path itself then holds the cache entry).
\<close>

theorem C1_cleanup_on_success:
  assumes run: "process_captioning env file_url caption_srt caption_type options_array job_id w
                  = (Inr out, w')"
    and miss: "files w (cache_path_of env file_url caption_srt caption_type
                          (convert_array_to_collection options_array)) = None"
  shows "\<exists>video_path video_bytes.
           download_file env file_url STORAGE_PATH = Inr (video_path, video_bytes)
         \<and> (\<forall>p \<in> {video_path, srt_path_of job_id caption_type, output_path_of job_id}.
               p \<noteq> cache_path_of env file_url caption_srt caption_type
                     (convert_array_to_collection options_array)
               \<longrightarrow> files w' p = None)"
proof -
  let ?options = "convert_array_to_collection options_array"
  let ?cp = "cache_path_of env file_url caption_srt caption_type ?options"
  note valid = process_captioning_success_valid [OF run]
  from run miss have "run_pipeline env file_url caption_srt caption_type ?options job_id ?cp w
                        = (Inr out, w')"
    by (simp add: process_captioning_valid [OF valid] Let_def)
  from run_pipeline_success [OF this] obtain video_path video_bytes w0 where
    dl: "download_file env file_url STORAGE_PATH = Inr (video_path, video_bytes)"
    and up: "upload_and_cleanup env video_path (srt_path_of job_id caption_type)
               (output_path_of job_id) ?cp w0 = (Inr out, w')"
    by blast
  have "files w' p = None"
    if "p \<in> {video_path, srt_path_of job_id caption_type, output_path_of job_id}"
      and "p \<noteq> ?cp" for p
    using upload_and_cleanup_removed [OF up] that by simp
  with dl show ?thesis
    by (intro exI [of _ video_path] exI [of _ video_bytes] conjI ballI impI)
qed

theorem C1_witness:
  "fst (example_run example_env ''job1'' empty_world)
     = Inr (JStr ''https://storage.googleapis.com/bucket/tmp/job1_captioned.mp4'')
   \<and> files empty_world example_cache_path = None
   \<and> download_file example_env ''https://example.com/video.mp4'' STORAGE_PATH
       = Inr (''/tmp/video.mp4'', ''VIDEO'')
   \<and> files (snd (example_run example_env ''job1'' empty_world)) ''/tmp/video.mp4'' = None
   \<and> files (snd (example_run example_env ''job1'' empty_world)) (srt_path_of ''job1'' ''srt'')
       = None
   \<and> files (snd (example_run example_env ''job1'' empty_world)) (output_path_of ''job1'') = None"
proof -
  have first: "process_captioning example_env ''https://example.com/video.mp4''
       ''https://example.com/captions.srt'' ''srt'' example_options ''job1'' empty_world
     = (Inr (JStr ''https://storage.googleapis.com/bucket/tmp/job1_captioned.mp4''),
        snd (example_run example_env ''job1'' empty_world))"
    using example_run_result by (metis example_run_def prod.collapse)
  have miss: "files empty_world (cache_path_of example_env ''https://example.com/video.mp4''
       ''https://example.com/captions.srt'' ''srt'' (convert_array_to_collection example_options))
     = None"
    by (simp add: empty_world_def)
  have dl: "download_file example_env ''https://example.com/video.mp4'' STORAGE_PATH
              = Inr (''/tmp/video.mp4'', ''VIDEO'')"
    by code_simp
  have paths: "''/tmp/video.mp4'' \<noteq> example_cache_path"
    "srt_path_of ''job1'' ''srt'' \<noteq> example_cache_path"
    "output_path_of ''job1'' \<noteq> example_cache_path"
    by code_simp+
  from C1_cleanup_on_success [OF first miss] obtain video_path video_bytes where
    dl': "download_file example_env ''https://example.com/video.mp4'' STORAGE_PATH
            = Inr (video_path, video_bytes)"
    and clean: "\<forall>p \<in> {video_path, srt_path_of ''job1'' ''srt'', output_path_of ''job1''}.
         p \<noteq> cache_path_of example_env ''https://example.com/video.mp4''
               ''https://example.com/captions.srt'' ''srt''
               (convert_array_to_collection example_options)
         \<longrightarrow> files (snd (example_run example_env ''job1'' empty_world)) p = None"
    by (elim exE conjE)
  from dl dl' have vp: "video_path = ''/tmp/video.mp4''" by simp
  have "files (snd (example_run example_env ''job1'' empty_world)) ''/tmp/video.mp4'' = None"
    using clean paths(1) unfolding vp example_cache_path_eq by blast
  moreover have "files (snd (example_run example_env ''job1'' empty_world))
                   (srt_path_of ''job1'' ''srt'') = None"
    using clean paths(2) unfolding vp example_cache_path_eq by blast
  moreover have "files (snd (example_run example_env ''job1'' empty_world))
                   (output_path_of ''job1'') = None"
    using clean paths(3) unfolding vp example_cache_path_eq by blast
  moreover have "files empty_world example_cache_path = None"
    by (simp add: empty_world_def)
  ultimately show ?thesis
    using example_run_result dl by (intro conjI)
qed

section \<open>The claim on remote subtitles\<close>




section \<open>The claim on the fingerprint\<close>

text \<open>
  Claim C6. Two option arrays that convert to the same mapping, whatever the order of
  their items, give the same digest with the same file reference, subtitle payload and
  dialect: the serialisation sorts the keys.
\<close>

theorem C6_fingerprint_order_independent:
  assumes "map_of (convert_array_to_collection options1)
             = map_of (convert_array_to_collection options2)"
  shows "get_job_hash env file_url caption_srt caption_type
             (convert_array_to_collection options1)
         = get_job_hash env file_url caption_srt caption_type
             (convert_array_to_collection options2)"
proof -
  have "sort_keys (JDict (convert_array_to_collection options1))
          = sort_keys (JDict (convert_array_to_collection options2))"
    using distinct_convert distinct_convert assms by (rule sort_keys_dict_eq)
  then show ?thesis
    unfolding get_job_hash_def by (simp del: sort_keys.simps(2) add: sort_keys.simps(2) [of "[_,_,_,_]"])
qed

theorem C6_witness:
  "map_of (convert_array_to_collection
             [(''font_name'', JStr ''Arial''), (''font_size'', JInt 24), (''bold'', JInt 1)])
     = map_of (convert_array_to_collection
             [(''bold'', JInt 0), (''font_size'', JInt 24), (''font_name'', JStr ''Arial''),
              (''bold'', JInt 1)])
   \<and> convert_array_to_collection
             [(''font_name'', JStr ''Arial''), (''font_size'', JInt 24), (''bold'', JInt 1)]
     \<noteq> convert_array_to_collection
             [(''bold'', JInt 0), (''font_size'', JInt 24), (''font_name'', JStr ''Arial''),
              (''bold'', JInt 1)]
   \<and> get_job_hash example_env ''https://example.com/video.mp4'' ''text'' ''srt''
         (convert_array_to_collection
             [(''font_name'', JStr ''Arial''), (''font_size'', JInt 24), (''bold'', JInt 1)])
     = get_job_hash example_env ''https://example.com/video.mp4'' ''text'' ''srt''
         (convert_array_to_collection
             [(''bold'', JInt 0), (''font_size'', JInt 24), (''font_name'', JStr ''Arial''),
              (''bold'', JInt 1)])"
proof -
  have same: "map_of (convert_array_to_collection
             [(''font_name'', JStr ''Arial''), (''font_size'', JInt 24), (''bold'', JInt 1)])
     = map_of (convert_array_to_collection
             [(''bold'', JInt 0), (''font_size'', JInt 24), (''font_name'', JStr ''Arial''),
              (''bold'', JInt 1)])"
    by (auto simp: convert_array_to_collection_def fun_eq_iff)
  have differ: "convert_array_to_collection
             [(''font_name'', JStr ''Arial''), (''font_size'', JInt 24), (''bold'', JInt 1)]
     \<noteq> convert_array_to_collection
             [(''bold'', JInt 0), (''font_size'', JInt 24), (''font_name'', JStr ''Arial''),
              (''bold'', JInt 1)]"
    by (simp add: convert_array_to_collection_def)
  show ?thesis
    using same differ
      C6_fingerprint_order_independent [OF same, of example_env
        "''https://example.com/video.mp4''" "''text''" "''srt''"]
    by simp
qed

section \<open>The claims on the cache\<close>

text \<open>
  Claim C7. After a call that returned a reference, a second call whose inputs have the
  same fingerprint (in particular the same file reference, subtitle payload, dialect and
  options, with any job identifier) and whose options pass validation returns the same
  reference and leaves the state as it is: it downloads, renders and uploads nothing.
  The cache entry written by the first call must read back as it was written, which is
  asked of the \<^verbatim>\<open>json\<close> encoder and decoder.
\<close>

theorem C7_cache_idempotence:
  assumes first: "process_captioning env file_url caption_srt caption_type options_array job_id w
                    = (Inr out, w1)"
    and same: "get_job_hash env file_url' caption_srt' caption_type'
                 (convert_array_to_collection options_array')
               = get_job_hash env file_url caption_srt caption_type
                 (convert_array_to_collection options_array)"
    and valid': "validate_options (fonts_listing env)
                   (convert_array_to_collection options_array') = Inr ()"
    and roundtrip: "json_decode env (json_encode env (JDict [(''output_filename'', out)]))
                    = Inr (JDict [(''output_filename'', out)])"
  shows "process_captioning env file_url' caption_srt' caption_type' options_array' job_id' w1
           = (Inr out, w1)"
proof -
  let ?options = "convert_array_to_collection options_array"
  let ?cp = "cache_path_of env file_url caption_srt caption_type ?options"
  have cp': "cache_path_of env file_url' caption_srt' caption_type'
               (convert_array_to_collection options_array') = ?cp"
    using same by (simp add: cache_path_of_def)
  note valid = process_captioning_success_valid [OF first]
  show ?thesis
  proof (cases "files w ?cp \<noteq> None")
    case True
    with first have hit: "cache_lookup env ?cp w = (Inr out, w1)"
      by (simp add: process_captioning_valid [OF valid] Let_def)
    then have "w1 = w" by (rule cache_lookup_world)
    with hit True show ?thesis
      by (simp add: process_captioning_valid [OF valid'] cp' Let_def)
  next
    case False
    with first have "run_pipeline env file_url caption_srt caption_type ?options job_id ?cp w
                       = (Inr out, w1)"
      by (simp add: process_captioning_valid [OF valid] Let_def)
    from run_pipeline_success [OF this] obtain video_path w0 where
      "upload_and_cleanup env video_path (srt_path_of job_id caption_type)
         (output_path_of job_id) ?cp w0 = (Inr out, w1)"
      by blast
    from upload_and_cleanup_success [OF this] obtain output_filename where
      out: "out = JStr output_filename"
      and entry: "files w1 ?cp
                    = Some (json_encode env (JDict [(''output_filename'', JStr output_filename)]))"
      by blast
    have "cache_lookup env ?cp w1 = (Inr out, w1)"
      using entry roundtrip
      by (simp add: out cache_lookup_def bindE_def read_file_def liftE_def subscript_def)
    with entry show ?thesis
      by (simp add: process_captioning_valid [OF valid'] cp' Let_def)
  qed
qed

theorem C7_witness:
  "fst (example_run example_env ''job1'' empty_world)
     = Inr (JStr ''https://storage.googleapis.com/bucket/tmp/job1_captioned.mp4'')
   \<and> calls (snd (example_run example_env ''job1'' empty_world)) \<noteq> []
   \<and> example_run example_env ''job2'' (snd (example_run example_env ''job1'' empty_world))
     = (Inr (JStr ''https://storage.googleapis.com/bucket/tmp/job1_captioned.mp4''),
        snd (example_run example_env ''job1'' empty_world))"
proof -
  have first: "process_captioning example_env ''https://example.com/video.mp4''
       ''https://example.com/captions.srt'' ''srt'' example_options ''job1'' empty_world
     = (Inr (JStr ''https://storage.googleapis.com/bucket/tmp/job1_captioned.mp4''),
        snd (example_run example_env ''job1'' empty_world))"
    using example_run_result by (metis example_run_def prod.collapse)
  have roundtrip: "json_decode example_env (json_encode example_env
       (JDict [(''output_filename'',
                JStr ''https://storage.googleapis.com/bucket/tmp/job1_captioned.mp4'')]))
     = Inr (JDict [(''output_filename'',
                JStr ''https://storage.googleapis.com/bucket/tmp/job1_captioned.mp4'')])"
    by code_simp
  have nonempty: "calls (snd (example_run example_env ''job1'' empty_world)) \<noteq> []"
    by code_simp
  have valid: "validate_options (fonts_listing example_env)
                 (convert_array_to_collection example_options) = Inr ()"
    by code_simp
  show ?thesis
    using C7_cache_idempotence [OF first refl valid roundtrip, of "''job2''"]
      example_run_result nonempty
    by (simp add: example_run_def)
qed

text \<open>
  Claim C5. The specification expects that an error of the cache does not abort the
  call. The code has no such handling. With an entry at the cache path that is not
  \<^verbatim>\<open>json\<close>, the example job raises the decoding error and nothing is downloaded; with a
  cache path that cannot be written, it raises after the upload.
\<close>

theorem C5_corrupt_cache_counterexample:
  "files corrupt_cache_world
     (cache_path_of example_env ''https://example.com/video.mp4''
        ''https://example.com/captions.srt'' ''srt''
        (convert_array_to_collection example_options)) \<noteq> None
   \<and> fst (example_run example_env ''job1'' corrupt_cache_world) = Inl JSONDecodeError
   \<and> calls (snd (example_run example_env ''job1'' corrupt_cache_world)) = []
   \<and> fst (example_run readonly_cache_env ''job1'' empty_world) = Inl PermissionError
   \<and> last (calls (snd (example_run readonly_cache_env ''job1'' empty_world)))
       = Upload ''/tmp/job1_captioned.mp4''"
proof -
  have "files corrupt_cache_world
     (cache_path_of example_env ''https://example.com/video.mp4''
        ''https://example.com/captions.srt'' ''srt''
        (convert_array_to_collection example_options)) \<noteq> None"
    by (simp add: example_cache_path_eq corrupt_cache_world_def)
  moreover have "fst (example_run example_env ''job1'' corrupt_cache_world) = Inl JSONDecodeError"
    by code_simp
  moreover have "calls (snd (example_run example_env ''job1'' corrupt_cache_world)) = []"
    by code_simp
  moreover have "fst (example_run readonly_cache_env ''job1'' empty_world) = Inl PermissionError"
    by code_simp
  moreover have "last (calls (snd (example_run readonly_cache_env ''job1'' empty_world)))
       = Upload ''/tmp/job1_captioned.mp4''"
    by code_simp
  ultimately show ?thesis by simp
qed

text \<open>
  Claim C5, as amended. For options that pass validation: when the entry at the cache
  path does not decode, the call raises that error and leaves the state as it is; when
  there is no entry and the cache path cannot be written, the call never returns a
  reference.
\<close>

theorem C5_cache_errors_abort:
  assumes valid: "validate_options (fonts_listing env) (convert_array_to_collection options_array)
                    = Inr ()"
    and cp: "cache_path = cache_path_of env file_url caption_srt caption_type
                            (convert_array_to_collection options_array)"
  shows "(files w cache_path = Some cache_text \<and> json_decode env cache_text = Inl e
            \<longrightarrow> process_captioning env file_url caption_srt caption_type options_array job_id w
                  = (Inl e, w))
       \<and> (files w cache_path = None \<and> \<not> writable env cache_path
            \<longrightarrow> (\<forall>out w'. process_captioning env file_url caption_srt caption_type
                             options_array job_id w \<noteq> (Inr out, w')))"
proof (intro conjI impI allI)
  assume "files w cache_path = Some cache_text \<and> json_decode env cache_text = Inl e"
  then show "process_captioning env file_url caption_srt caption_type options_array job_id w
               = (Inl e, w)"
    unfolding cp
    by (simp add: process_captioning_valid [OF valid] Let_def cache_lookup_def bindE_def
                  read_file_def liftE_def)
next
  fix out w'
  assume miss: "files w cache_path = None \<and> \<not> writable env cache_path"
  show "process_captioning env file_url caption_srt caption_type options_array job_id w
          \<noteq> (Inr out, w')"
  proof
    assume "process_captioning env file_url caption_srt caption_type options_array job_id w
              = (Inr out, w')"
    with miss have "run_pipeline env file_url caption_srt caption_type
                      (convert_array_to_collection options_array) job_id cache_path w
                    = (Inr out, w')"
      unfolding cp by (simp add: process_captioning_valid [OF valid] Let_def)
    from run_pipeline_success [OF this] obtain video_path w0 where
      "upload_and_cleanup env video_path (srt_path_of job_id caption_type)
         (output_path_of job_id) cache_path w0 = (Inr out, w')"
      by blast
    from upload_and_cleanup_success [OF this] have "writable env cache_path" by blast
    with miss show False by simp
  qed
qed

theorem C5_witness:
  "(files corrupt_cache_world example_cache_path = Some (''{'' @ dquote @ ''output_fi'')
     \<and> json_decode example_env (''{'' @ dquote @ ''output_fi'') = Inl JSONDecodeError
     \<and> process_captioning example_env ''https://example.com/video.mp4''
         ''https://example.com/captions.srt'' ''srt'' example_options ''job1''
         corrupt_cache_world = (Inl JSONDecodeError, corrupt_cache_world))
   \<and> (files empty_world example_cache_path = None
     \<and> \<not> writable readonly_cache_env example_cache_path
     \<and> (\<forall>out w'. process_captioning readonly_cache_env ''https://example.com/video.mp4''
           ''https://example.com/captions.srt'' ''srt'' example_options ''job1'' empty_world
           \<noteq> (Inr out, w')))"
proof -
  have valid: "validate_options (fonts_listing example_env)
                 (convert_array_to_collection example_options) = Inr ()"
    by code_simp
  have valid': "validate_options (fonts_listing readonly_cache_env)
                 (convert_array_to_collection example_options) = Inr ()"
    by code_simp
  have cp': "example_cache_path = cache_path_of readonly_cache_env ''https://example.com/video.mp4''
     ''https://example.com/captions.srt'' ''srt'' (convert_array_to_collection example_options)"
    by (simp add: readonly_cache_env_def cache_path_of_update example_cache_path_eq)
  have h1: "files corrupt_cache_world example_cache_path = Some (''{'' @ dquote @ ''output_fi'')"
    by (simp add: corrupt_cache_world_def)
  have h2: "json_decode example_env (''{'' @ dquote @ ''output_fi'') = Inl JSONDecodeError"
    by code_simp
  have h3: "files empty_world example_cache_path = None"
    by (simp add: empty_world_def)
  have h4: "\<not> writable readonly_cache_env example_cache_path"
    by (simp add: readonly_cache_env_def)
  show ?thesis
    using C5_cache_errors_abort [OF valid example_cache_path_eq [symmetric],
            of corrupt_cache_world "''{'' @ dquote @ ''output_fi''" JSONDecodeError "''job1''"]
      C5_cache_errors_abort [OF valid' cp', of empty_world]
      h1 h2 h3 h4
    by blast
qed

section \<open>The claims on validation and fonts\<close>

text \<open>
  Claim C8. The specification expects that a font size that is not an integer is rejected
  before anything is downloaded, rendered or uploaded. Line 146 tests
  \<^verbatim>\<open>isinstance(x, int)\<close>, and \<^verbatim>\<open>bool\<close> is a subclass of \<^verbatim>\<open>int\<close> in Python: with the
  font size \<^verbatim>\<open>true\<close>, which is not an integer of the job's \<^verbatim>\<open>json\<close>, validation passes
  (\<^verbatim>\<open>True <= 0\<close> is false) and the call goes on to download, render with
  \<^verbatim>\<open>FontSize=True\<close> in the filter, and upload. The other cases of the claim are rejected
  as it says, which is \<open>validation_rejects_before_collaborators\<close>.
\<close>

theorem C8_boolean_font_size_accepted:
  "dict_get (convert_array_to_collection boolean_size_options) ''font_size'' JNull = JBool True
   \<and> fst (process_captioning example_env ''https://example.com/video.mp4''
              ''https://example.com/captions.srt'' ''srt'' boolean_size_options ''job1''
              empty_world)
       = Inr (JStr ''https://storage.googleapis.com/bucket/tmp/job1_captioned.mp4'')
   \<and> map (\<lambda>c. case c of Download u \<Rightarrow> ''download'' | Fetch u \<Rightarrow> ''fetch''
                     | Probe p \<Rightarrow> ''probe'' | Render v out vf \<Rightarrow> ''render''
                     | Upload p \<Rightarrow> ''upload'' | FontFallback \<Rightarrow> ''fallback'')
         (calls (snd (process_captioning example_env ''https://example.com/video.mp4''
                        ''https://example.com/captions.srt'' ''srt'' boolean_size_options
                        ''job1'' empty_world)))
       = [''download'', ''fetch'', ''probe'', ''render'', ''upload'']
   \<and> contains ''FontSize=True''
         (build_subtitle_filter example_env (convert_array_to_collection boolean_size_options)
            ''.srt'' (srt_path_of ''job1'' ''srt'') (JStr ''Arial'') (JBool True))"
proof -
  have "dict_get (convert_array_to_collection boolean_size_options) ''font_size'' JNull
          = JBool True"
    by code_simp
  moreover have "fst (process_captioning example_env ''https://example.com/video.mp4''
              ''https://example.com/captions.srt'' ''srt'' boolean_size_options ''job1''
              empty_world)
       = Inr (JStr ''https://storage.googleapis.com/bucket/tmp/job1_captioned.mp4'')"
    by code_simp
  moreover have "map (\<lambda>c. case c of Download u \<Rightarrow> ''download'' | Fetch u \<Rightarrow> ''fetch''
                     | Probe p \<Rightarrow> ''probe'' | Render v out vf \<Rightarrow> ''render''
                     | Upload p \<Rightarrow> ''upload'' | FontFallback \<Rightarrow> ''fallback'')
         (calls (snd (process_captioning example_env ''https://example.com/video.mp4''
                        ''https://example.com/captions.srt'' ''srt'' boolean_size_options
                        ''job1'' empty_world)))
       = [''download'', ''fetch'', ''probe'', ''render'', ''upload'']"
    by code_simp
  moreover have "contains ''FontSize=True''
         (build_subtitle_filter example_env (convert_array_to_collection boolean_size_options)
            ''.srt'' (srt_path_of ''job1'' ''srt'') (JStr ''Arial'') (JBool True))"
    by code_simp
  ultimately show ?thesis by (intro conjI)
qed

text \<open>
  Claim C10. Once \<^verbatim>\<open>validate_options\<close> has accepted the options, the font name is a
  key of the catalogue: the font selection of lines 219 to 225 returns the asset path of
  the requested font and leaves the state as it is, and a call of \<^verbatim>\<open>process_captioning\<close>
  with these options never records the warning of the fallback branch.
\<close>

theorem C10_no_font_fallback:
  assumes "options = convert_array_to_collection options_array"
    and "validate_options (fonts_listing env) options = Inr ()"
  shows "(\<exists>name path. dict_get options ''font_name'' (JStr ''Arial'') = JStr name
            \<and> map_of (FONT_PATHS (fonts_listing env)) name = Some path
            \<and> select_font env (dict_get options ''font_name'' (JStr ''Arial'')) w
                = (Inr (Some path), w))
       \<and> (\<forall>r w'. process_captioning env file_url caption_srt caption_type options_array
                       job_id w = (r, w')
                 \<longrightarrow> FontFallback \<in> set (calls w') \<longrightarrow> FontFallback \<in> set (calls w))"
proof
  from select_font_valid [OF assms(2)]
  show "\<exists>name path. dict_get options ''font_name'' (JStr ''Arial'') = JStr name
            \<and> map_of (FONT_PATHS (fonts_listing env)) name = Some path
            \<and> select_font env (dict_get options ''font_name'' (JStr ''Arial'')) w
                = (Inr (Some path), w)"
    by blast
next
  show "\<forall>r w'. process_captioning env file_url caption_srt caption_type options_array
                       job_id w = (r, w')
                 \<longrightarrow> FontFallback \<in> set (calls w') \<longrightarrow> FontFallback \<in> set (calls w)"
    using no_fallback_process_captioning
      [of env file_url caption_srt caption_type options_array job_id]
    unfolding no_fallback_def by blast
qed

theorem C10_witness:
  "validate_options (fonts_listing example_env) (convert_array_to_collection example_options)
     = Inr ()
   \<and> select_font example_env
        (dict_get (convert_array_to_collection example_options) ''font_name'' (JStr ''Arial''))
        empty_world
       = (Inr (Some ''/usr/share/fonts/custom/Arial.ttf''), empty_world)
   \<and> calls (snd (example_run example_env ''job1'' empty_world)) \<noteq> []
   \<and> FontFallback \<notin> set (calls (snd (example_run example_env ''job1'' empty_world)))"
proof -
  have valid: "validate_options (fonts_listing example_env)
                 (convert_array_to_collection example_options) = Inr ()"
    by code_simp
  have paths: "FONT_PATHS (fonts_listing example_env)
                 = [(''Arial'', ''/usr/share/fonts/custom/Arial.ttf''),
                    (''Roboto'', ''/usr/share/fonts/custom/Roboto.TTF'')]"
    by code_simp
  have name: "dict_get (convert_array_to_collection example_options) ''font_name'' (JStr ''Arial'')
                = JStr ''Arial''"
    by code_simp
  have nonempty: "calls (snd (example_run example_env ''job1'' empty_world)) \<noteq> []"
    by code_simp
  have run: "process_captioning example_env ''https://example.com/video.mp4''
               ''https://example.com/captions.srt'' ''srt'' example_options ''job1'' empty_world
             = (fst (example_run example_env ''job1'' empty_world),
                snd (example_run example_env ''job1'' empty_world))"
    by (simp add: example_run_def)
  note c10 = C10_no_font_fallback [OF refl valid, of empty_world
      "''https://example.com/video.mp4''" "''https://example.com/captions.srt''" "''srt''"
      "''job1''"]
  from c10 have font: "select_font example_env
        (dict_get (convert_array_to_collection example_options) ''font_name'' (JStr ''Arial''))
        empty_world
       = (Inr (Some ''/usr/share/fonts/custom/Arial.ttf''), empty_world)"
    unfolding name paths by auto
  from c10 run have "FontFallback \<in> set (calls (snd (example_run example_env ''job1'' empty_world)))
      \<longrightarrow> FontFallback \<in> set (calls empty_world)"
    by blast
  then have "FontFallback \<notin> set (calls (snd (example_run example_env ''job1'' empty_world)))"
    by (auto simp: empty_world_def)
  with valid font nonempty show ?thesis by (intro conjI)
qed

end

